theory Spec2Isabelle
  imports Complex_Main "HOL-Library.AList" "HOL-Library.Sublist"
begin

section \<open>Python values that come out of the provider's JSON\<close>

text \<open>
  The stock provider answers with JSON, which \<^verbatim>\<open>response.json()\<close> turns into Python
  values: \<^verbatim>\<open>None\<close>, booleans, integers, floats, strings, lists and dictionaries with string
  keys. A finite float is kept as the rational number it denotes. The decoder
  (\<^verbatim>\<open>json.loads\<close>) also accepts the literals \<^verbatim>\<open>NaN\<close>, \<^verbatim>\<open>Infinity\<close> and
  \<^verbatim>\<open>-Infinity\<close> and returns the floats \<^verbatim>\<open>nan\<close>, \<^verbatim>\<open>inf\<close> and \<^verbatim>\<open>-inf\<close> for them,
  each time the same object of the module. A dictionary is the list of its items in
  insertion order; a key is looked up with \<open>map_of\<close>. Strings are lists of bytes (UTF-8).
\<close>

datatype json =
    JNull
  | JBool bool
  | JInt int
  | JFloat rat
  | JNaN
  | JInfinity
  | JNegInfinity
  | JStr string
  | JArr "json list"
  | JObj "(string \<times> json) list"

text \<open>The exceptions the operations below raise in Python.\<close>

datatype py_exception = TypeError | KeyError | AttributeError | IndexError

text \<open>Truth value testing (\<^verbatim>\<open>if x:\<close>, \<^verbatim>\<open>x and y\<close>).\<close>

fun py_truthy :: "json \<Rightarrow> bool" where
  "py_truthy JNull = False"
| "py_truthy (JBool b) = b"
| "py_truthy (JInt i) = (i \<noteq> 0)"
| "py_truthy (JFloat r) = (r \<noteq> 0)"
| "py_truthy JNaN = True"
| "py_truthy JInfinity = True"
| "py_truthy JNegInfinity = True"
| "py_truthy (JStr s) = (s \<noteq> [])"
| "py_truthy (JArr xs) = (xs \<noteq> [])"
| "py_truthy (JObj kvs) = (kvs \<noteq> [])"

text \<open>\<^verbatim>\<open>x > 0\<close>: numbers compare (a boolean is the integer 0 or 1, every comparison with
  \<^verbatim>\<open>nan\<close> is false), everything else raises \<^verbatim>\<open>TypeError\<close>.\<close>

fun py_gt_zero :: "json \<Rightarrow> py_exception + bool" where
  "py_gt_zero (JBool b) = Inr b"
| "py_gt_zero (JInt i) = Inr (0 < i)"
| "py_gt_zero (JFloat r) = Inr (0 < r)"
| "py_gt_zero JNaN = Inr False"
| "py_gt_zero JInfinity = Inr True"
| "py_gt_zero JNegInfinity = Inr False"
| "py_gt_zero _ = Inl TypeError"

text \<open>The value of a number other than \<^verbatim>\<open>nan\<close>.\<close>

datatype number = Finite rat | PlusInfinity | MinusInfinity

fun num_val :: "json \<Rightarrow> number option" where
  "num_val (JBool b) = Some (Finite (if b then 1 else 0))"
| "num_val (JInt i) = Some (Finite (of_int i))"
| "num_val (JFloat r) = Some (Finite r)"
| "num_val JInfinity = Some PlusInfinity"
| "num_val JNegInfinity = Some MinusInfinity"
| "num_val _ = None"

text \<open>
  \<^verbatim>\<open>x == y\<close>: numbers are equal by value across \<^verbatim>\<open>bool\<close>, \<^verbatim>\<open>int\<close> and \<^verbatim>\<open>float\<close>,
  but \<^verbatim>\<open>nan\<close> is equal to nothing, not even to itself. Lists are equal elementwise and
  dictionaries when they have the same keys with equal values; there the elements are
  compared as \<open>py_same\<close> below does (the same object, or equal), so that \<^verbatim>\<open>[nan] == [nan]\<close>
  holds for the one \<^verbatim>\<open>nan\<close> of the decoder. It never raises.
\<close>

function py_eq :: "json \<Rightarrow> json \<Rightarrow> bool" where
  "py_eq JNull b = (b = JNull)"
| "py_eq (JBool x) b = (num_val b = num_val (JBool x))"
| "py_eq (JInt i) b = (num_val b = num_val (JInt i))"
| "py_eq (JFloat r) b = (num_val b = num_val (JFloat r))"
| "py_eq JNaN b = False"
| "py_eq JInfinity b = (num_val b = Some PlusInfinity)"
| "py_eq JNegInfinity b = (num_val b = Some MinusInfinity)"
| "py_eq (JStr s) b = (b = JStr s)"
| "py_eq (JArr xs) b =
     (case b of
        JArr ys \<Rightarrow>
          length xs = length ys \<and>
          list_all (\<lambda>(x, y). if x = JNaN \<and> y = JNaN then True else py_eq x y) (zip xs ys)
      | _ \<Rightarrow> False)"
| "py_eq (JObj kvs) b =
     (case b of
        JObj kws \<Rightarrow>
          length kvs = length kws \<and>
          list_all (\<lambda>(k, v). case map_of kws k of
                               None \<Rightarrow> False
                             | Some w \<Rightarrow> if v = JNaN \<and> w = JNaN then True else py_eq v w) kvs
      | _ \<Rightarrow> False)"
  by pat_completeness auto
termination
proof (relation "measure (\<lambda>(a, b). size a)")
  show "wf (measure (\<lambda>(a, b). size a))"
    by simp
next
  fix xs :: "json list" and b ys z x y
  assume "z \<in> set (zip xs ys)" and "(x, y) = z"
  then have "x \<in> set xs"
    by (metis set_zip_leftD)
  then have "size x < Suc (size_list size xs)"
    by (induction xs) auto
  then show "((x, y), JArr xs, b) \<in> measure (\<lambda>(a, b). size a)"
    by simp
next
  fix kvs :: "(string \<times> json) list" and b kws z k v w
  assume "z \<in> set kvs" and "(k, v) = z"
  then have "(k, v) \<in> set kvs"
    by simp
  then have "size v < Suc (size_list (size_prod (\<lambda>_. 0) size) kvs)"
    by (induction kvs) auto
  then show "((v, w), JObj kvs, b) \<in> measure (\<lambda>(a, b). size a)"
    by simp
qed

text \<open>The comparison that a dictionary lookup, a list comparison and \<^verbatim>\<open>in\<close> on a list make:
  \<^verbatim>\<open>x is y or x == y\<close>. Every \<^verbatim>\<open>nan\<close> that the decoder returns is the same object; for
  the other values being the same object changes nothing.\<close>

definition py_same :: "json \<Rightarrow> json \<Rightarrow> bool" where
  "py_same x y = (if x = JNaN \<and> y = JNaN then True else py_eq x y)"

text \<open>\<^verbatim>\<open>len(x)\<close> and iteration (\<^verbatim>\<open>for y in x\<close>). Iterating a string gives its
  characters, iterating a dictionary its keys. (The code below only asks whether the
  length of a string is 0, and raises on the first character it gets, so that bytes and
  code points make no difference.)\<close>

fun py_len :: "json \<Rightarrow> py_exception + nat" where
  "py_len (JStr s) = Inr (length s)"
| "py_len (JArr xs) = Inr (length xs)"
| "py_len (JObj kvs) = Inr (length kvs)"
| "py_len _ = Inl TypeError"

fun py_iter :: "json \<Rightarrow> py_exception + json list" where
  "py_iter (JStr s) = Inr (map (\<lambda>c. JStr [c]) s)"
| "py_iter (JArr xs) = Inr xs"
| "py_iter (JObj kvs) = Inr (map (\<lambda>(k, v). JStr k) kvs)"
| "py_iter _ = Inl TypeError"

text \<open>\<^verbatim>\<open>key in x\<close> for a string \<open>key\<close>: a key of a dictionary, an element of a list,
  a substring of a string.\<close>

fun py_in :: "string \<Rightarrow> json \<Rightarrow> py_exception + bool" where
  "py_in key (JObj kvs) = Inr (map_of kvs key \<noteq> None)"
| "py_in key (JArr xs) = Inr (list_ex (py_same (JStr key)) xs)"
| "py_in key (JStr s) = Inr (sublist key s)"
| "py_in key _ = Inl TypeError"

text \<open>\<^verbatim>\<open>x[key]\<close> for a string \<open>key\<close>, \<^verbatim>\<open>x[0]\<close>, and \<^verbatim>\<open>x.get(key, default)\<close>.\<close>

fun py_getitem :: "json \<Rightarrow> string \<Rightarrow> py_exception + json" where
  "py_getitem (JObj kvs) key = (case map_of kvs key of None \<Rightarrow> Inl KeyError | Some v \<Rightarrow> Inr v)"
| "py_getitem _ key = Inl TypeError"

fun py_first :: "json \<Rightarrow> py_exception + json" where
  "py_first (JArr xs) = (case xs of [] \<Rightarrow> Inl IndexError | x # _ \<Rightarrow> Inr x)"
| "py_first (JStr s) = (case s of [] \<Rightarrow> Inl IndexError | c # _ \<Rightarrow> Inr (JStr [c]))"
| "py_first (JObj kvs) = Inl KeyError"
| "py_first _ = Inl TypeError"

fun py_get :: "json \<Rightarrow> string \<Rightarrow> json \<Rightarrow> py_exception + json" where
  "py_get (JObj kvs) key dflt = Inr (case map_of kvs key of None \<Rightarrow> dflt | Some v \<Rightarrow> v)"
| "py_get _ key dflt = Inl AttributeError"

text \<open>Only \<^verbatim>\<open>None\<close>, numbers (\<^verbatim>\<open>nan\<close> too) and strings can be dictionary keys.\<close>

fun py_hashable :: "json \<Rightarrow> bool" where
  "py_hashable (JArr xs) = False"
| "py_hashable (JObj kvs) = False"
| "py_hashable _ = True"

text \<open>An f-string is kept as the list of its pieces: literal text, values that Python
  formats with \<^verbatim>\<open>str\<close>, and strings that it puts in upper case with \<^verbatim>\<open>str.upper()\<close>
  (which maps all of Unicode and is not computed here).\<close>

datatype piece = Lit string | Fmt json | Upper string

type_synonym fstring = "piece list"

text \<open>Sequencing of steps that may raise: the first exception ends the computation.\<close>

definition and_then :: "'e + 'a \<Rightarrow> ('a \<Rightarrow> 'e + 'b) \<Rightarrow> 'e + 'b" where
  "and_then r f = (case r of Inl e \<Rightarrow> Inl e | Inr v \<Rightarrow> f v)"

section \<open>The availability record\<close>

text \<open>
  One entry of \<^verbatim>\<open>available_locations\<close>: a dictionary with the keys \<^verbatim>\<open>locationId\<close>,
  \<^verbatim>\<open>fulfillmentType\<close>, and, when they were set, \<^verbatim>\<open>pickupQuantity\<close>,
  \<^verbatim>\<open>inStoreQuantity\<close> and \<^verbatim>\<open>name\<close>.
\<close>

record store_entry =
  locationId :: json
  pickupQuantity :: "json option"
  inStoreQuantity :: "json option"
  fulfillmentType :: json
  name :: "fstring option"

text \<open>
  What \<^verbatim>\<open>check_product_availability\<close> returns when it does not return \<^verbatim>\<open>None\<close>:
  the dictionary built by \<^verbatim>\<open>parse_stock_response\<close>, or
  \<^verbatim>\<open>{'available': False, 'error': 'Product not found'}\<close>.
\<close>

record stock_status =
  available :: bool
  stores :: "store_entry list option"
  total_stores :: "nat option"
  locations_checked :: "fstring list option"
  last_checked :: "string option"
  error :: "string option"

section \<open>parse\_stock\_response\<close>

subsection \<open>The loop over the item's locations\<close>

text \<open>\<^verbatim>\<open>next((loc for loc in available_locations if loc['locationId'] == location_id), None)\<close>\<close>

definition existing_location :: "json \<Rightarrow> store_entry list \<Rightarrow> store_entry option" where
  "existing_location location_id available_locations =
     find (\<lambda>loc. py_eq (locationId loc) location_id) available_locations"

text \<open>\<^verbatim>\<open>existing_location['inStoreQuantity'] = in_store_quantity\<close>: the entry found above is
  a member of the list and is changed in place.\<close>

fun set_inStoreQuantity :: "json \<Rightarrow> json \<Rightarrow> store_entry list \<Rightarrow> store_entry list" where
  "set_inStoreQuantity location_id q [] = []"
| "set_inStoreQuantity location_id q (loc # locs) =
     (if py_eq (locationId loc) location_id
      then loc\<lparr>inStoreQuantity := Some q\<rparr> # locs
      else loc # set_inStoreQuantity location_id q locs)"

text \<open>The \<^verbatim>\<open>if 'availability' in location_data:\<close> block, for the items \<open>kvs\<close> of
  \<^verbatim>\<open>location_data\<close>.\<close>

definition check_pickup ::
  "(string \<times> json) list \<Rightarrow> json \<Rightarrow> store_entry list \<Rightarrow> py_exception + store_entry list" where
  "check_pickup kvs location_id available_locations =
     (case map_of kvs ''availability'' of
        None \<Rightarrow> Inr available_locations
      | Some availability \<Rightarrow>
          and_then (py_get availability ''availablePickupQuantity'' (JInt 0)) (\<lambda>pickup_quantity.
          if py_truthy pickup_quantity
          then and_then (py_gt_zero pickup_quantity) (\<lambda>positive.
               if positive
               then and_then (py_get availability ''fulfillmentType'' (JStr ''PICKUP'')) (\<lambda>ft.
                    Inr (available_locations @
                      [\<lparr>locationId = location_id, pickupQuantity = Some pickup_quantity,
                        inStoreQuantity = None, fulfillmentType = ft, name = None\<rparr>]))
               else Inr available_locations)
          else Inr available_locations))"

text \<open>The \<^verbatim>\<open>if 'inStoreAvailability' in location_data:\<close> block.\<close>

definition check_in_store ::
  "(string \<times> json) list \<Rightarrow> json \<Rightarrow> store_entry list \<Rightarrow> py_exception + store_entry list" where
  "check_in_store kvs location_id available_locations =
     (case map_of kvs ''inStoreAvailability'' of
        None \<Rightarrow> Inr available_locations
      | Some in_store \<Rightarrow>
          and_then (py_get in_store ''availableInStoreQuantity'' (JInt 0)) (\<lambda>in_store_quantity.
          if existing_location location_id available_locations \<noteq> None
          then Inr (set_inStoreQuantity location_id in_store_quantity available_locations)
          else if py_truthy in_store_quantity
          then and_then (py_gt_zero in_store_quantity) (\<lambda>positive.
               if positive
               then Inr (available_locations @
                      [\<lparr>locationId = location_id, pickupQuantity = None,
                        inStoreQuantity = Some in_store_quantity,
                        fulfillmentType = JStr ''IN_STORE'', name = None\<rparr>])
               else Inr available_locations)
          else Inr available_locations))"

text \<open>One pass of the loop body. \<^verbatim>\<open>location_data.get('locationId')\<close> comes first and
  raises unless \<^verbatim>\<open>location_data\<close> is a dictionary.\<close>

definition location_id_of :: "(string \<times> json) list \<Rightarrow> json" where
  "location_id_of kvs = (case map_of kvs ''locationId'' of None \<Rightarrow> JNull | Some v \<Rightarrow> v)"

fun scan_location :: "json \<Rightarrow> store_entry list \<Rightarrow> py_exception + store_entry list" where
  "scan_location (JObj kvs) available_locations =
     (let location_id = location_id_of kvs
      in and_then (check_pickup kvs location_id available_locations)
           (check_in_store kvs location_id))"
| "scan_location _ available_locations = Inl AttributeError"

fun scan_locations :: "json list \<Rightarrow> store_entry list \<Rightarrow> py_exception + store_entry list" where
  "scan_locations [] available_locations = Inr available_locations"
| "scan_locations (location_data # rest) available_locations =
     and_then (scan_location location_data available_locations) (scan_locations rest)"

subsection \<open>Location names\<close>

text \<open>\<^verbatim>\<open>location_names\<close> is a dictionary whose keys are Python values; two keys are the
  same key when they are the same object or equal (\<^verbatim>\<open>1\<close>, \<^verbatim>\<open>1.0\<close> and \<^verbatim>\<open>True\<close> are
  one key, and so is the decoder's \<^verbatim>\<open>nan\<close>).\<close>

type_synonym location_names = "(json \<times> fstring) list"

fun names_put :: "json \<Rightarrow> fstring \<Rightarrow> location_names \<Rightarrow> location_names" where
  "names_put k v [] = [(k, v)]"
| "names_put k v ((k', v') # rest) =
     (if py_same k' k then (k', v) # rest else (k', v') # names_put k v rest)"

text \<open>\<^verbatim>\<open>location_names.get(key, f"Location {key}")\<close>; an unhashable key raises.\<close>

definition names_get :: "location_names \<Rightarrow> json \<Rightarrow> py_exception + fstring" where
  "names_get names key =
     (if py_hashable key
      then Inr (case find (\<lambda>(k', v'). py_same k' key) names of
                  None \<Rightarrow> [Lit ''Location '', Fmt key]
                | Some (k', v') \<Rightarrow> v')
      else Inl TypeError)"

text \<open>\<^verbatim>\<open>location_names[loc['id']] = f"{loc.get('name', 'Unknown')} - {loc.get('city', 'Unknown')}"\<close>:
  the right-hand side is evaluated first, then the key, then the key is hashed.\<close>

definition put_location_name :: "json \<Rightarrow> location_names \<Rightarrow> py_exception + location_names" where
  "put_location_name loc names =
     and_then (py_get loc ''name'' (JStr ''Unknown'')) (\<lambda>n.
     and_then (py_get loc ''city'' (JStr ''Unknown'')) (\<lambda>c.
     and_then (py_getitem loc ''id'') (\<lambda>k.
     if py_hashable k then Inr (names_put k [Fmt n, Lit '' - '', Fmt c] names)
     else Inl TypeError)))"

fun put_location_names :: "json list \<Rightarrow> location_names \<Rightarrow> py_exception + location_names" where
  "put_location_names [] names = Inr names"
| "put_location_names (loc # rest) names =
     and_then (put_location_name loc names) (put_location_names rest)"

text \<open>\<^verbatim>\<open>if 'locations' in data: for loc in data['locations']: ...\<close>, for the items \<open>entries\<close>
  of \<^verbatim>\<open>data\<close>.\<close>

definition build_location_names :: "(string \<times> json) list \<Rightarrow> py_exception + location_names" where
  "build_location_names entries =
     (case map_of entries ''locations'' of
        None \<Rightarrow> Inr []
      | Some locs \<Rightarrow> and_then (py_iter locs) (\<lambda>ls. put_location_names ls []))"

text \<open>\<^verbatim>\<open>for loc in available_locations: loc['name'] = location_names.get(...)\<close>\<close>

fun add_names :: "location_names \<Rightarrow> store_entry list \<Rightarrow> py_exception + store_entry list" where
  "add_names names [] = Inr []"
| "add_names names (loc # locs) =
     and_then (names_get names (locationId loc)) (\<lambda>n.
     and_then (add_names names locs) (\<lambda>locs'.
     Inr (loc\<lparr>name := Some n\<rparr> # locs')))"

text \<open>The list comprehension of \<^verbatim>\<open>'locations_checked'\<close>.\<close>

fun checked_names :: "location_names \<Rightarrow> json list \<Rightarrow> py_exception + fstring list" where
  "checked_names names [] = Inr []"
| "checked_names names (loc_data # rest) =
     and_then (py_get loc_data ''locationId'' JNull) (\<lambda>location_id.
     and_then (names_get names location_id) (\<lambda>n.
     and_then (checked_names names rest) (\<lambda>ns.
     Inr (n # ns))))"

subsection \<open>The function\<close>

text \<open>The body of the \<^verbatim>\<open>try\<close> block once the test
  \<^verbatim>\<open>isinstance(data, dict) and 'items' in data and len(data['items']) > 0\<close> has passed:
  \<open>entries\<close> are the items of \<^verbatim>\<open>data\<close> and \<open>items\<close> is \<^verbatim>\<open>data['items']\<close>.
  \<open>now\<close> is \<^verbatim>\<open>datetime.now().isoformat()\<close>.\<close>

definition parse_items ::
  "string \<Rightarrow> (string \<times> json) list \<Rightarrow> json \<Rightarrow> py_exception + stock_status option" where
  "parse_items now entries items =
     and_then (py_first items) (\<lambda>item.
     and_then (py_in ''locations'' item) (\<lambda>has_locations.
     if \<not> has_locations then Inr None
     else
       and_then (py_getitem item ''locations'') (\<lambda>locs.
       and_then (py_len locs) (\<lambda>total_locations.
       and_then (py_iter locs) (\<lambda>location_list.
       and_then (scan_locations location_list []) (\<lambda>available_locations.
       and_then (build_location_names entries) (\<lambda>names.
       and_then (add_names names available_locations) (\<lambda>named.
       and_then (checked_names names location_list) (\<lambda>checked.
       Inr (Some \<lparr>available = (length named > 0),
                  stores = Some named,
                  total_stores = Some total_locations,
                  locations_checked = Some checked,
                  last_checked = Some now,
                  error = None\<rparr>))))))))))"

text \<open>The whole \<^verbatim>\<open>try\<close> block: an exception is \<open>Inl\<close>, a returned value is \<open>Inr\<close>
  (\<open>Inr None\<close> is \<^verbatim>\<open>return None\<close>).\<close>

definition parse_try :: "string \<Rightarrow> json \<Rightarrow> string \<Rightarrow> py_exception + stock_status option" where
  "parse_try now data sku =
     (case data of
        JObj entries \<Rightarrow>
          (case map_of entries ''items'' of
             None \<Rightarrow> Inr None
           | Some items \<Rightarrow>
               and_then (py_len items) (\<lambda>n.
               if n > 0 then parse_items now entries items else Inr None))
      | _ \<Rightarrow> Inr None)"

text \<open>\<^verbatim>\<open>except Exception as e: ... return None\<close>\<close>

definition parse_stock_response :: "string \<Rightarrow> json \<Rightarrow> string \<Rightarrow> stock_status option" where
  "parse_stock_response now data sku =
     (case parse_try now data sku of Inl e \<Rightarrow> None | Inr r \<Rightarrow> r)"

section \<open>check\_product\_availability\<close>

text \<open>
  What \<^verbatim>\<open>self.session.get(...)\<close> gives for one request: a response with its status and,
  for the call of \<^verbatim>\<open>response.json()\<close>, the decoded body (\<open>None\<close> when decoding raises),
  or \<^verbatim>\<open>asyncio.TimeoutError\<close>, or any other exception of the transport.
\<close>

datatype http_result = Response nat "json option" | TimeoutError | ClientError

type_synonym session = "string \<Rightarrow> string \<Rightarrow> http_result"

definition not_found_status :: stock_status where
  "not_found_status =
     \<lparr>available = False, stores = None, total_stores = None, locations_checked = None,
      last_checked = None, error = Some ''Product not found''\<rparr>"

text \<open>The result \<open>None\<close> is \<^verbatim>\<open>return None\<close>; both \<^verbatim>\<open>except\<close> clauses return it.\<close>

definition check_product_availability ::
  "string \<Rightarrow> session \<Rightarrow> string \<Rightarrow> string \<Rightarrow> stock_status option" where
  "check_product_availability now session_get sku zip_code =
     (case session_get sku zip_code of
        Response status body \<Rightarrow>
          if status = 200 then
            (case body of None \<Rightarrow> None | Some data \<Rightarrow> parse_stock_response now data sku)
          else if status = 404 then Some not_found_status
          else None
      | TimeoutError \<Rightarrow> None
      | ClientError \<Rightarrow> None)"

section \<open>The catalog, the status store and the messages\<close>

text \<open>
  An entry of \<^verbatim>\<open>PRODUCTS_TO_MONITOR\<close>: \<^verbatim>\<open>sku\<close> and \<^verbatim>\<open>zip_code\<close> are always there,
  the other keys may be missing (\<open>set_name\<close> is the key \<^verbatim>\<open>set\<close>).
\<close>

record product =
  sku :: string
  zip_code :: string
  name :: "string option"
  priority :: "string option"
  category :: "string option"
  set_name :: "string option"

text \<open>
  The two pieces of mutable state: the module's list \<^verbatim>\<open>PRODUCTS_TO_MONITOR\<close> and the
  dictionary \<^verbatim>\<open>bot.last_stock_status\<close>, whose keys are SKUs. The dictionary is the list
  of its items in insertion order: \<open>map_of\<close> reads it, \<open>AList.update\<close> is
  \<^verbatim>\<open>d[k] = v\<close> and \<open>AList.delete\<close> is \<^verbatim>\<open>del d[k]\<close>.
\<close>

record bot =
  PRODUCTS_TO_MONITOR :: "product list"
  last_stock_status :: "(string \<times> stock_status) list"

record embed_field =
  field_name :: fstring
  field_text :: fstring
  inline :: bool

record embed =
  title :: fstring
  description :: "fstring option"
  color :: nat
  timestamp :: string
  embed_fields :: "embed_field list"

text \<open>One call of \<^verbatim>\<open>send\<close>: an optional text and an optional embed.\<close>

record message =
  content :: "fstring option"
  embed_of :: "embed option"

definition text_message :: "fstring \<Rightarrow> message" where
  "text_message s = \<lparr>content = Some s, embed_of = None\<rparr>"

definition embed_message :: "embed \<Rightarrow> message" where
  "embed_message e = \<lparr>content = None, embed_of = Some e\<rparr>"

subsection \<open>Strings\<close>

text \<open>\<^verbatim>\<open>str.lower()\<close> on the ASCII letters; other bytes are kept. The code only asks whether
  the result is one of the words top, high, medium, low, or compares it with one of them.
  Outside ASCII, the only character that \<^verbatim>\<open>str.lower()\<close> maps to an ASCII letter alone is
  the Kelvin sign, to \<^verbatim>\<open>k\<close>, a letter of none of the four words, so that these tests
  have the same result.\<close>

definition py_lower :: "string \<Rightarrow> string" where
  "py_lower s =
     map (\<lambda>c. case map_of (zip ''ABCDEFGHIJKLMNOPQRSTUVWXYZ'' ''abcdefghijklmnopqrstuvwxyz'') c of
                 None \<Rightarrow> c | Some d \<Rightarrow> d) s"

text \<open>\<^verbatim>\<open>sep.join(parts)\<close>\<close>

fun py_join :: "'a list \<Rightarrow> 'a list list \<Rightarrow> 'a list" where
  "py_join sep [] = []"
| "py_join sep [x] = x"
| "py_join sep (x # y # ys) = x @ sep @ py_join sep (y # ys)"

text \<open>The characters outside ASCII that the messages use, in UTF-8.\<close>

definition bullet :: string where
  "bullet = [CHR 0xE2, CHR 0x80, CHR 0xA2]"

definition emoji_siren :: string where
  "emoji_siren = [CHR 0xF0, CHR 0x9F, CHR 0x9A, CHR 0xA8]"

definition emoji_fire :: string where
  "emoji_fire = [CHR 0xF0, CHR 0x9F, CHR 0x94, CHR 0xA5]"

definition emoji_party :: string where
  "emoji_party = [CHR 0xF0, CHR 0x9F, CHR 0x8E, CHR 0x89]"

definition emoji_package :: string where
  "emoji_package = [CHR 0xF0, CHR 0x9F, CHR 0x93, CHR 0xA6]"

definition emoji_memo :: string where
  "emoji_memo = [CHR 0xF0, CHR 0x9F, CHR 0x93, CHR 0x9D]"

definition emoji_check :: string where
  "emoji_check = [CHR 0xE2, CHR 0x9C, CHR 0x85]"

definition emoji_cross :: string where
  "emoji_cross = [CHR 0xE2, CHR 0x9D, CHR 0x8C]"

definition emoji_warning :: string where
  "emoji_warning = [CHR 0xE2, CHR 0x9A, CHR 0xA0, CHR 0xEF, CHR 0xB8, CHR 0x8F]"

definition newline :: string where
  "newline = [CHR 0x0A]"

subsection \<open>The lines that list the stores\<close>

text \<open>The quantity part of a line, the same code in the restock alert and in the status
  listing: \<^verbatim>\<open>qty_info\<close> and then \<^verbatim>\<open>qty_display\<close>.\<close>

definition qty_info :: "store_entry \<Rightarrow> fstring list" where
  "qty_info store =
     (let pickup_qty = (case pickupQuantity store of None \<Rightarrow> JStr [] | Some q \<Rightarrow> q);
          in_store_qty = (case inStoreQuantity store of None \<Rightarrow> JStr [] | Some q \<Rightarrow> q)
      in (if py_truthy pickup_qty
          then (if py_eq pickup_qty (JInt 9999) then [[Lit ''3+'']] else [[Fmt pickup_qty]])
          else []) @
         (if py_truthy in_store_qty \<and> \<not> py_eq in_store_qty pickup_qty
          then (if py_eq in_store_qty (JInt 9999) then [[Lit ''3+ in-store'']]
                else [[Fmt in_store_qty, Lit '' in-store'']])
          else []))"

definition store_line :: "store_entry \<Rightarrow> fstring" where
  "store_line store =
     (let store_name = (case store_entry.name store of
                          None \<Rightarrow> [Lit ''Location '', Fmt (locationId store)]
                        | Some n \<Rightarrow> n);
          info = qty_info store;
          qty_display = (if info \<noteq> [] then [Lit '' (''] @ py_join [Lit '', ''] info @ [Lit '')'']
                         else [])
      in [Lit bullet, Lit '' ''] @ store_name @ qty_display)"

text \<open>The first \<open>limit\<close> stores, and a last line when there are more.\<close>

definition store_list :: "nat \<Rightarrow> store_entry list \<Rightarrow> fstring list" where
  "store_list limit ss =
     map store_line (take limit ss) @
     (if length ss > limit
      then [[Lit bullet, Lit '' ... and '', Fmt (JInt (int (length ss - limit))),
             Lit '' more stores'']]
      else [])"

definition snormax_url :: "string \<Rightarrow> string \<Rightarrow> string" where
  "snormax_url sku zip_code =
     ''https://www.snormax.com/lookup/bestbuy/'' @ sku @ ''?title=&image=&zipcode='' @ zip_code"
  for sku zip_code

section \<open>monitor\_restocks\<close>

text \<open>\<^verbatim>\<open>next((p.get(key, default) for p in PRODUCTS_TO_MONITOR if p['sku'] == sku), default)\<close>:
  the field of the first catalog entry with this SKU.\<close>

definition first_with_sku ::
  "(product \<Rightarrow> string option) \<Rightarrow> string \<Rightarrow> product list \<Rightarrow> string \<Rightarrow> string" where
  "first_with_sku field dflt products k =
     (case find (\<lambda>p. sku p = k) products of
        None \<Rightarrow> dflt
      | Some p \<Rightarrow> (case field p of None \<Rightarrow> dflt | Some v \<Rightarrow> v))"

text \<open>Title and colour of the alert, by priority.\<close>

definition alert_style :: "string \<Rightarrow> fstring \<times> nat" where
  "alert_style priority =
     (if priority = ''top''
      then ([Lit (emoji_siren @ emoji_fire @ '' TOP PRIORITY RESTOCK! '' @ emoji_fire @ emoji_siren)],
            0xff0000)
      else if priority = ''high''
      then ([Lit (emoji_party @ '' HIGH PRIORITY RESTOCK! '' @ emoji_party)], 0xff8800)
      else if priority = ''medium''
      then ([Lit (emoji_package @ '' RESTOCK ALERT! '' @ emoji_package)], 0x00ff00)
      else ([Lit (emoji_memo @ '' Restock Alert'')], 0x808080))"
  for priority

text \<open>The message of lines 303 to 372: the mention of \<^verbatim>\<open>USER_ID\<close> and the embed.\<close>

definition restock_alert ::
  "string \<Rightarrow> string \<Rightarrow> product list \<Rightarrow> product \<Rightarrow> stock_status \<Rightarrow> message" where
  "restock_alert user_id now products product current_status =
     (let sku = sku product;
          zip_code = zip_code product;
          name = (case name product of None \<Rightarrow> sku | Some n \<Rightarrow> n);
          priority = first_with_sku priority ''medium'' products sku;
          category = first_with_sku category ''Unknown'' products sku;
          set_name = first_with_sku set_name ''Unknown'' products sku;
          style = alert_style priority;
          ss = (case stores current_status of None \<Rightarrow> [] | Some l \<Rightarrow> l)
      in \<lparr>content = Some [Lit ''<@'', Lit user_id, Lit ''>''],
          embed_of = Some
            \<lparr>title = fst style,
             description = Some [Lit ''**'', Lit name, Lit ''** is back in stock!''],
             color = snd style,
             timestamp = now,
             embed_fields =
               [\<lparr>field_name = [Lit ''SKU''], field_text = [Lit sku], inline = True\<rparr>,
                \<lparr>field_name = [Lit ''Zip Code''], field_text = [Lit zip_code], inline = True\<rparr>,
                \<lparr>field_name = [Lit ''Priority''], field_text = [Upper priority],
                 inline = True\<rparr>,
                \<lparr>field_name = [Lit ''Category''], field_text = [Lit category], inline = True\<rparr>,
                \<lparr>field_name = [Lit ''Set''], field_text = [Lit set_name], inline = True\<rparr>] @
               (if ss \<noteq> []
                then [\<lparr>field_name = [Lit ''Stores with Stock''],
                       field_text = [Fmt (JInt (int (length ss))), Lit '' stores''],
                       inline = True\<rparr>,
                      \<lparr>field_name = [Lit ''Available Locations''],
                       field_text = py_join [Lit newline] (store_list 10 ss),
                       inline = False\<rparr>]
                else []) @
               [\<lparr>field_name = [Lit ''Link''],
                 field_text = [Lit ''[Snormax]('', Lit (snormax_url sku zip_code), Lit '')''],
                 inline = False\<rparr>]\<rparr>\<rparr>)"

text \<open>
  The test of lines 300 and 301: \<^verbatim>\<open>previous_status\<close> is
  \<^verbatim>\<open>self.last_stock_status.get(sku, {})\<close>, so a missing entry counts as not available.
\<close>

definition restock_detected :: "stock_status \<Rightarrow> stock_status option \<Rightarrow> bool" where
  "restock_detected current_status previous_status =
     (available current_status \<and>
      \<not> (case previous_status of None \<Rightarrow> False | Some prev \<Rightarrow> available prev))"

text \<open>
  One pass of the loop body, for one product. The state is the bot and the messages sent
  to the channel so far. \<^verbatim>\<open>continue\<close> leaves both as they are. The channel accepts
  every message.
\<close>

definition monitor_product ::
  "string \<Rightarrow> string \<Rightarrow> session \<Rightarrow> product \<Rightarrow> bot \<times> message list \<Rightarrow> bot \<times> message list" where
  "monitor_product user_id now session_get product st =
     (let b = fst st; sent = snd st;
          sku = sku product;
          zip_code = zip_code product
      in case check_product_availability now session_get sku zip_code of
           None \<Rightarrow> (b, sent)
         | Some current_status \<Rightarrow>
             (let previous_status = map_of (last_stock_status b) sku;
                  sent' = (if restock_detected current_status previous_status
                           then sent @ [restock_alert user_id now (PRODUCTS_TO_MONITOR b)
                                          product current_status]
                           else sent)
              in (b\<lparr>last_stock_status := AList.update sku current_status (last_stock_status b)\<rparr>,
                  sent')))"

text \<open>\<^verbatim>\<open>for product in PRODUCTS_TO_MONITOR:\<close>\<close>

fun monitor_loop ::
  "string \<Rightarrow> string \<Rightarrow> session \<Rightarrow> product list \<Rightarrow> bot \<times> message list \<Rightarrow> bot \<times> message list" where
  "monitor_loop user_id now session_get [] st = st"
| "monitor_loop user_id now session_get (product # rest) st =
     monitor_loop user_id now session_get rest (monitor_product user_id now session_get product st)"

text \<open>One cycle. \<open>channel\<close> tells whether \<^verbatim>\<open>self.get_channel(CHANNEL_ID)\<close> found the
  channel; without it the cycle returns at once. The result is the bot after the cycle and
  the messages sent during it.\<close>

definition monitor_restocks ::
  "bool \<Rightarrow> string \<Rightarrow> string \<Rightarrow> session \<Rightarrow> bot \<Rightarrow> bot \<times> message list" where
  "monitor_restocks channel user_id now session_get b =
     (if \<not> channel then (b, [])
      else monitor_loop user_id now session_get (PRODUCTS_TO_MONITOR b) (b, []))"

section \<open>The commands\<close>

text \<open>A command takes the bot and returns the bot after it with the messages it sent.\<close>

definition valid_priorities :: "string list" where
  "valid_priorities = [''top'', ''high'', ''medium'', ''low'']"

subsection \<open>status\<close>

text \<open>The dictionary \<^verbatim>\<open>product_info\<close>; \<open>info_status\<close> is \<open>None\<close> for the empty
  dictionary that \<^verbatim>\<open>bot.last_stock_status.get(sku, {})\<close> gives for a missing entry.\<close>

record product_info =
  info_name :: string
  info_sku :: string
  info_priority :: string
  info_status :: "stock_status option"
  info_zip_code :: string

text \<open>\<^verbatim>\<open>status and status.get('available')\<close>\<close>

definition status_available :: "stock_status option \<Rightarrow> bool" where
  "status_available status = (case status of None \<Rightarrow> False | Some s \<Rightarrow> available s)"

text \<open>\<^verbatim>\<open>status.get('stores', [])\<close>, with the empty list for the empty dictionary too.\<close>

definition status_stores :: "stock_status option \<Rightarrow> store_entry list" where
  "status_stores status =
     (case status of
        None \<Rightarrow> []
      | Some s \<Rightarrow> (case stores s of None \<Rightarrow> [] | Some l \<Rightarrow> l))"

text \<open>\<^verbatim>\<open>if priority_filter\<close> and \<^verbatim>\<open>priority_filter and ...\<close>: the filter counts when it is
  given and not the empty string. \<open>truthy_filter\<close> is the filter when it counts.\<close>

definition truthy_filter :: "string option \<Rightarrow> string option" where
  "truthy_filter priority_filter =
     (case priority_filter of None \<Rightarrow> None | Some f \<Rightarrow> if f = [] then None else Some f)"

text \<open>The test of line 405:
  \<^verbatim>\<open>priority_filter and priority_filter.lower() not in valid_priorities\<close>\<close>

definition filter_rejected :: "string option \<Rightarrow> bool" where
  "filter_rejected priority_filter =
     (case truthy_filter priority_filter of
        None \<Rightarrow> False
      | Some f \<Rightarrow> py_lower f \<notin> set valid_priorities)"

text \<open>The loop of lines 413 to 434: the products that pass the filter, with their status,
  split into \<^verbatim>\<open>available_products\<close> and \<^verbatim>\<open>unavailable_products\<close>.\<close>

fun group_products ::
  "string option \<Rightarrow> (string \<times> stock_status) list \<Rightarrow> product list \<Rightarrow>
   product_info list \<times> product_info list" where
  "group_products priority_filter statuses [] = ([], [])"
| "group_products priority_filter statuses (product # rest) =
     (let sku = sku product;
          name = (case name product of None \<Rightarrow> sku | Some n \<Rightarrow> n);
          priority = (case priority product of None \<Rightarrow> ''medium'' | Some x \<Rightarrow> x);
          status = map_of statuses sku;
          groups = group_products priority_filter statuses rest
      in if (case truthy_filter priority_filter of
                None \<Rightarrow> False
              | Some f \<Rightarrow> py_lower priority \<noteq> py_lower f)
         then groups
         else
           (let product_info =
                  \<lparr>info_name = name, info_sku = sku, info_priority = priority,
                   info_status = status, info_zip_code = zip_code product\<rparr>
            in if status_available status
               then (product_info # fst groups, snd groups)
               else (fst groups, product_info # snd groups)))"

text \<open>The field that \<^verbatim>\<open>create_status_embed\<close> adds for one product.\<close>

definition status_field :: "product_info \<Rightarrow> embed_field" where
  "status_field product =
     (let status = info_status product;
          snormax_link = [Lit ''[snormax]('',
                          Lit (snormax_url (info_sku product) (info_zip_code product)), Lit '')'']
      in \<lparr>field_name = [Lit (info_name product)],
          field_text =
            (if status_available status
             then
               (let ss = status_stores status
                in [Lit ''**Priority:** '', Upper (info_priority product), Lit newline] @
                   [Lit ''**SKU:** '', Lit (info_sku product), Lit newline] @
                   [Lit ''**Stores with Stock:** '', Fmt (JInt (int (length ss))),
                    Lit '' stores'', Lit newline] @
                   (if ss \<noteq> []
                    then [Lit ''**Available Locations:**'', Lit newline] @
                         py_join [Lit newline] (store_list 8 ss) @ [Lit newline]
                    else []) @
                   [Lit ''**Link:** ''] @ snormax_link)
             else
               [Lit ''**Priority:** '', Upper (info_priority product), Lit newline] @
               [Lit ''**SKU:** '', Lit (info_sku product), Lit newline] @
               [Lit ''**Status:** Out of Stock'', Lit newline] @
               (case status of
                  None \<Rightarrow> []
                | Some s \<Rightarrow>
                    [Lit ''**Total Stores Checked:** '',
                     (case total_stores s of None \<Rightarrow> Lit ''Unknown'' | Some n \<Rightarrow> Fmt (JInt (int n))),
                     Lit newline]) @
               [Lit ''**Link:** ''] @ snormax_link),
          inline = False\<rparr>)"

text \<open>The notice added after the first ten products.\<close>

definition more_products_field :: "nat \<Rightarrow> embed_field" where
  "more_products_field n =
     \<lparr>field_name = [Lit (emoji_warning @ '' More Products'')],
      field_text = [Lit ''... and '', Fmt (JInt (int n)),
                    Lit '' more products. Use priority filters to see specific items.''],
      inline = False\<rparr>"

text \<open>The helper \<^verbatim>\<open>create_status_embed(products, title, color)\<close>: \<open>None\<close> for an empty
  list, else one embed with a field for each of \<^verbatim>\<open>products[:10]\<close> and the notice when
  there are more than ten.\<close>

definition create_status_embed ::
  "string \<Rightarrow> product_info list \<Rightarrow> fstring \<Rightarrow> nat \<Rightarrow> embed option" where
  "create_status_embed now products ttl col =
     (if products = [] then None
      else Some
        \<lparr>title = ttl, description = None, color = col, timestamp = now,
         embed_fields =
           map status_field (take 10 products) @
           (if length products > 10 then [more_products_field (length products - 10)] else [])\<rparr>)"

text \<open>Lines 522 to 539: at most one embed for each of the two groups.\<close>

definition status_embeds ::
  "string \<Rightarrow> product_info list \<Rightarrow> product_info list \<Rightarrow> embed list" where
  "status_embeds now available_products unavailable_products =
     (if available_products \<noteq> []
      then (case create_status_embed now available_products
                   [Lit (emoji_check @ '' Available Products (''),
                    Fmt (JInt (int (length available_products))), Lit '')''] 0x00ff00 of
              None \<Rightarrow> [] | Some e \<Rightarrow> [e])
      else []) @
     (if unavailable_products \<noteq> []
      then (case create_status_embed now unavailable_products
                   [Lit (emoji_cross @ '' Out of Stock Products (''),
                    Fmt (JInt (int (length unavailable_products))), Lit '')''] 0xff0000 of
              None \<Rightarrow> [] | Some e \<Rightarrow> [e])
      else [])"

definition check_status :: "string \<Rightarrow> string option \<Rightarrow> bot \<Rightarrow> bot \<times> message list" where
  "check_status now priority_filter b =
     (if last_stock_status b = []
      then (b, [text_message
                  [Lit ''No products have been checked yet. Please wait for the first check cycle.'']])
      else if filter_rejected priority_filter
      then (b, [text_message
                  [Lit ''Invalid priority filter. Use one of: '',
                   Lit (py_join '', '' valid_priorities)]])
      else
        (let groups = group_products priority_filter (last_stock_status b) (PRODUCTS_TO_MONITOR b);
             embeds = status_embeds now (fst groups) (snd groups)
         in if embeds \<noteq> [] then (b, map embed_message embeds)
            else (case truthy_filter priority_filter of
                    Some f \<Rightarrow>
                      (b, [text_message
                             [Lit ''No '', Lit f, Lit '' priority products found or checked yet.'']])
                  | None \<Rightarrow> (b, [text_message [Lit ''No products found.'']]))))"

subsection \<open>add and remove\<close>

text \<open>\<open>name\<close> is the optional rest of the command line; \<^verbatim>\<open>name or sku\<close> is the SKU when
  it is missing or empty.\<close>

definition add_product ::
  "string \<Rightarrow> string \<Rightarrow> string option \<Rightarrow> bot \<Rightarrow> bot \<times> message list" where
  "add_product sku zip_code name b =
     (let name_or_sku = (case name of None \<Rightarrow> sku | Some n \<Rightarrow> if n = [] then sku else n)
      in if list_ex (\<lambda>product. product.sku product = sku \<and> product.zip_code product = zip_code)
              (PRODUCTS_TO_MONITOR b)
         then (b, [text_message
                     [Lit ''Product '', Lit sku, Lit '' at '', Lit zip_code,
                      Lit '' is already being monitored.'']])
         else (b\<lparr>PRODUCTS_TO_MONITOR := PRODUCTS_TO_MONITOR b @
                   [\<lparr>product.sku = sku, product.zip_code = zip_code,
                     product.name = Some name_or_sku, priority = None, category = None,
                     set_name = None\<rparr>]\<rparr>,
               [text_message
                  [Lit ''Added '', Lit name_or_sku, Lit '' (SKU: '', Lit sku, Lit '') at '',
                   Lit zip_code, Lit '' to monitoring list.'']]))"
  for sku zip_code name

text \<open>\<^verbatim>\<open>PRODUCTS_TO_MONITOR.pop(i)\<close> for the first entry with this SKU and zip code.\<close>

fun pop_product :: "string \<Rightarrow> string \<Rightarrow> product list \<Rightarrow> (product \<times> product list) option" where
  "pop_product k z [] = None"
| "pop_product k z (p # ps) =
     (if sku p = k \<and> zip_code p = z then Some (p, ps)
      else (case pop_product k z ps of
              None \<Rightarrow> None
            | Some (removed, ps') \<Rightarrow> Some (removed, p # ps')))"

definition remove_product :: "string \<Rightarrow> string \<Rightarrow> bot \<Rightarrow> bot \<times> message list" where
  "remove_product sku zip_code b =
     (case pop_product sku zip_code (PRODUCTS_TO_MONITOR b) of
        Some (removed_product, products) \<Rightarrow>
          (\<lparr>PRODUCTS_TO_MONITOR = products,
            last_stock_status =
              (if map_of (last_stock_status b) sku \<noteq> None
               then AList.delete sku (last_stock_status b)
               else last_stock_status b)\<rparr>,
           [text_message
              [Lit ''Removed '',
               Lit (case product.name removed_product of None \<Rightarrow> sku | Some n \<Rightarrow> n),
               Lit '' from monitoring list.'']])
      | None \<Rightarrow>
          (b, [text_message
                 [Lit ''Product '', Lit sku, Lit '' at '', Lit zip_code,
                  Lit '' not found in monitoring list.'']]))"
  for sku zip_code

section \<open>Notions used in the statements\<close>

text \<open>The raw response has no usable \<^verbatim>\<open>items\<close>: it is not a dictionary, or it has no key
  \<^verbatim>\<open>items\<close>, or the value under that key is not a list, or it is the empty list.\<close>

definition lacks_items :: "json \<Rightarrow> bool" where
  "lacks_items data =
     (case data of
        JObj entries \<Rightarrow>
          (case map_of entries ''items'' of
             None \<Rightarrow> True
           | Some items \<Rightarrow> (case items of JArr xs \<Rightarrow> xs = [] | _ \<Rightarrow> True))
      | _ \<Rightarrow> True)"

text \<open>A location entry of the provider that is a dictionary whose \<^verbatim>\<open>locationId\<close> can be
  a dictionary key.\<close>

definition hashable_location :: "json \<Rightarrow> bool" where
  "hashable_location l = (case l of JObj kvs \<Rightarrow> py_hashable (location_id_of kvs) | _ \<Rightarrow> False)"

text \<open>The request did not give a response with status 200 or 404: it timed out, the
  transport raised, or the status is another one.\<close>

definition fetch_failed :: "http_result \<Rightarrow> bool" where
  "fetch_failed r =
     (case r of
        Response status body \<Rightarrow> status \<noteq> 200 \<and> status \<noteq> 404
      | TimeoutError \<Rightarrow> True
      | ClientError \<Rightarrow> True)"

text \<open>The provider's array of locations, \<^verbatim>\<open>data['items'][0]['locations']\<close>, when the
  response has that shape (else the empty list), and the \<^verbatim>\<open>locationId\<close> of one of its
  entries.\<close>

definition provider_locations :: "json \<Rightarrow> json list" where
  "provider_locations data =
     (case data of
        JObj entries \<Rightarrow>
          (case map_of entries ''items'' of
             Some (JArr (JObj item # others)) \<Rightarrow>
               (case map_of item ''locations'' of Some (JArr ls) \<Rightarrow> ls | _ \<Rightarrow> [])
           | _ \<Rightarrow> [])
      | _ \<Rightarrow> [])"

definition entry_location_id :: "json \<Rightarrow> json" where
  "entry_location_id l = (case l of JObj kvs \<Rightarrow> location_id_of kvs | _ \<Rightarrow> JNull)"



text \<open>The two replies of the status command that are not listings.\<close>

definition not_checked_yet :: message where
  "not_checked_yet =
     text_message
       [Lit ''No products have been checked yet. Please wait for the first check cycle.'']"

definition invalid_priority_filter :: message where
  "invalid_priority_filter =
     text_message [Lit ''Invalid priority filter. Use one of: '', Lit ''top, high, medium, low'']"

section \<open>Example inputs\<close>

text \<open>The raw response of the specification's example, and the record it normalizes to.\<close>

definition spec_example :: json where
  "spec_example =
     JObj [(''items'', JArr [JObj [(''locations'', JArr
              [JObj [(''locationId'', JInt 1),
                     (''availability'', JObj [(''availablePickupQuantity'', JInt 2)])]])]]),
           (''locations'', JArr [JObj [(''id'', JInt 1), (''name'', JStr ''Store A''),
                                       (''city'', JStr ''X'')]])]"

definition spec_example_record :: "string \<Rightarrow> stock_status" where
  "spec_example_record now =
     \<lparr>available = True,
      stores = Some [\<lparr>locationId = JInt 1, pickupQuantity = Some (JInt 2),
                      inStoreQuantity = None, fulfillmentType = JStr ''PICKUP'',
                      store_entry.name =
                        Some [Fmt (JStr ''Store A''), Lit '' - '', Fmt (JStr ''X'')]\<rparr>],
      total_stores = Some 1,
      locations_checked = Some [[Fmt (JStr ''Store A''), Lit '' - '', Fmt (JStr ''X'')]],
      last_checked = Some now, error = None\<rparr>"

text \<open>A response with one location that has nothing to pick up, and its record.\<close>

definition sold_out_example :: json where
  "sold_out_example =
     JObj [(''items'', JArr [JObj [(''locations'', JArr
              [JObj [(''locationId'', JInt 1),
                     (''availability'', JObj [(''availablePickupQuantity'', JInt 0)])]])]])]"

definition sold_out_record :: "string \<Rightarrow> stock_status" where
  "sold_out_record now =
     \<lparr>available = False, stores = Some [], total_stores = Some 1,
      locations_checked = Some [[Lit ''Location '', Fmt (JInt 1)]],
      last_checked = Some now, error = None\<rparr>"

text \<open>A product, sessions that always give the same answer, and a bot that watches the
  product.\<close>

definition booster_box :: product where
  "booster_box =
     \<lparr>sku = ''ABC'', zip_code = ''90503'', name = Some ''Booster Box'', priority = Some ''high'',
      category = None, set_name = None\<rparr>"

definition in_stock_session :: session where
  "in_stock_session = (\<lambda>k z. Response 200 (Some spec_example))"

definition sold_out_session :: session where
  "sold_out_session = (\<lambda>k z. Response 200 (Some sold_out_example))"

definition not_found_session :: session where
  "not_found_session = (\<lambda>k z. Response 404 None)"

definition timeout_session :: session where
  "timeout_session = (\<lambda>k z. TimeoutError)"

definition bot_with :: "(string \<times> stock_status) list \<Rightarrow> bot" where
  "bot_with statuses = \<lparr>PRODUCTS_TO_MONITOR = [booster_box], last_stock_status = statuses\<rparr>"

text \<open>The same SKU watched at two zip codes, in stock at the first only.\<close>

definition box_at :: "string \<Rightarrow> product" where
  "box_at z = \<lparr>sku = ''ABC'', zip_code = z, name = Some ''Booster Box'', priority = None,
      category = None, set_name = None\<rparr>"

definition two_zip_session :: session where
  "two_zip_session =
     (\<lambda>k z. if z = ''90001'' then Response 200 (Some spec_example)
            else Response 200 (Some sold_out_example))"

definition two_zip_bot :: "(string \<times> stock_status) list \<Rightarrow> bot" where
  "two_zip_bot statuses =
     \<lparr>PRODUCTS_TO_MONITOR = [box_at ''90001'', box_at ''90002''], last_stock_status = statuses\<rparr>"





text \<open>One entry of the provider whose \<^verbatim>\<open>locationId\<close> is \<^verbatim>\<open>NaN\<close>, with two pieces to pick up
  and one in the store; the stores and the record that the normalizer makes of it.\<close>

definition nan_example :: json where
  "nan_example =
     JObj [(''items'', JArr [JObj [(''locations'', JArr
       [JObj [(''locationId'', JNaN),
              (''availability'', JObj [(''availablePickupQuantity'', JInt 2)]),
              (''inStoreAvailability'', JObj [(''availableInStoreQuantity'', JInt 1)])]])]])]"

definition nan_example_stores :: "store_entry list" where
  "nan_example_stores =
     [\<lparr>locationId = JNaN, pickupQuantity = Some (JInt 2), inStoreQuantity = None,
       fulfillmentType = JStr ''PICKUP'',
       store_entry.name = Some [Lit ''Location '', Fmt JNaN]\<rparr>,
      \<lparr>locationId = JNaN, pickupQuantity = None, inStoreQuantity = Some (JInt 1),
       fulfillmentType = JStr ''IN_STORE'',
       store_entry.name = Some [Lit ''Location '', Fmt JNaN]\<rparr>]"

definition nan_example_record :: "string \<Rightarrow> stock_status" where
  "nan_example_record now =
     \<lparr>available = True, stores = Some nan_example_stores, total_stores = Some 1,
      locations_checked = Some [[Lit ''Location '', Fmt JNaN]],
      last_checked = Some now, error = None\<rparr>"



text \<open>Twenty-three products, named A to W, each with an available record in the store.\<close>

definition letter_product :: "char \<Rightarrow> product" where
  "letter_product c =
     \<lparr>sku = [c], zip_code = ''90503'', name = None, priority = None, category = None,
      set_name = None\<rparr>"

definition letters23 :: string where
  "letters23 = ''ABCDEFGHIJKLMNOPQRSTUVW''"

definition bot23 :: bot where
  "bot23 =
     \<lparr>PRODUCTS_TO_MONITOR = map letter_product letters23,
      last_stock_status = map (\<lambda>c. ([c], spec_example_record ''t0'')) letters23\<rparr>"

definition letter_info :: "char \<Rightarrow> product_info" where
  "letter_info c =
     \<lparr>info_name = [c], info_sku = [c], info_priority = ''medium'',
      info_status = Some (spec_example_record ''t0''), info_zip_code = ''90503''\<rparr>"

section \<open>Properties of the normalizer\<close>

lemma and_then_Inr_iff:
  "and_then r f = Inr y \<longleftrightarrow> (\<exists>v. r = Inr v \<and> f v = Inr y)"
  by (cases r) (simp_all add: and_then_def)

lemma and_then_simps [simp]:
  "and_then (Inl e) f = Inl e"
  "and_then (Inr v) f = f v"
  by (simp_all add: and_then_def)

lemma py_same_iff [simp]: "py_same x y \<longleftrightarrow> (x = JNaN \<and> y = JNaN) \<or> py_eq x y"
  by (auto simp: py_same_def)

lemma parse_spec_example:
  "parse_stock_response now spec_example k = Some (spec_example_record now)"
  by (simp add: spec_example_def spec_example_record_def parse_stock_response_def parse_try_def
      parse_items_def check_pickup_def check_in_store_def location_id_of_def
      build_location_names_def put_location_name_def names_get_def)

lemma length_set_inStoreQuantity [simp]:
  "length (set_inStoreQuantity location_id q locs) = length locs"
  by (induction locs) auto

lemma py_eq_refl_hashable: "py_hashable x \<Longrightarrow> x \<noteq> JNaN \<Longrightarrow> py_eq x x"
  by (cases x) simp_all

lemma check_pickup_cases:
  assumes "check_pickup kvs lid acc = Inr acc'"
  shows "acc' = acc \<or> (\<exists>e. acc' = acc @ [e] \<and> locationId e = lid)"
  using assms
  by (auto simp: check_pickup_def and_then_Inr_iff split: option.splits if_splits)

lemma check_in_store_existing:
  assumes "check_in_store kvs lid acc = Inr acc'" and "existing_location lid acc \<noteq> None"
  shows "length acc' = length acc"
  using assms
  by (auto simp: check_in_store_def and_then_Inr_iff split: option.splits)

lemma check_in_store_length:
  assumes "check_in_store kvs lid acc = Inr acc'"
  shows "length acc' \<le> Suc (length acc)"
  using assms
  by (auto simp: check_in_store_def and_then_Inr_iff split: option.splits if_splits)

lemma existing_location_snoc:
  "py_eq lid lid \<Longrightarrow> locationId e = lid \<Longrightarrow> existing_location lid (acc @ [e]) \<noteq> None"
  by (auto simp: existing_location_def find_None_iff)

text \<open>A location adds at most one entry: when the pickup block has added one, the in-store
  block finds it.\<close>

lemma scan_location_length:
  assumes "scan_location (JObj kvs) acc = Inr acc'"
    and "py_eq (location_id_of kvs) (location_id_of kvs)"
  shows "length acc' \<le> Suc (length acc)"
proof -
  from assms(1) obtain acc1 where
    p: "check_pickup kvs (location_id_of kvs) acc = Inr acc1" and
    s: "check_in_store kvs (location_id_of kvs) acc1 = Inr acc'"
    by (auto simp: and_then_Inr_iff Let_def)
  from check_pickup_cases[OF p] show ?thesis
  proof
    assume "acc1 = acc"
    with check_in_store_length[OF s] show ?thesis by simp
  next
    assume "\<exists>e. acc1 = acc @ [e] \<and> locationId e = location_id_of kvs"
    then obtain e where e: "acc1 = acc @ [e]" "locationId e = location_id_of kvs" by blast
    then have "existing_location (location_id_of kvs) acc1 \<noteq> None"
      using existing_location_snoc[OF assms(2)] by simp
    with check_in_store_existing[OF s] e show ?thesis by simp
  qed
qed

text \<open>The comprehension of \<^verbatim>\<open>locations_checked\<close> goes through every location and raises
  on an identifier that cannot be hashed.\<close>

lemma checked_names_hashable:
  "checked_names names ls = Inr ns \<Longrightarrow> list_all hashable_location ls"
proof (induction ls arbitrary: ns)
  case Nil
  then show ?case by simp
next
  case (Cons l ls)
  then show ?case
    by (cases l)
       (auto simp: and_then_Inr_iff names_get_def hashable_location_def location_id_of_def
          split: if_splits option.splits)
qed

lemma scan_location_length_any:
  assumes "scan_location l acc = Inr acc'"
  shows "length acc' \<le> Suc (Suc (length acc))"
proof (cases l)
  case (JObj kvs)
  with assms obtain acc1 where
    p: "check_pickup kvs (location_id_of kvs) acc = Inr acc1" and
    s: "check_in_store kvs (location_id_of kvs) acc1 = Inr acc'"
    by (auto simp: and_then_Inr_iff Let_def)
  from check_pickup_cases[OF p] have "length acc1 \<le> Suc (length acc)"
    by auto
  with check_in_store_length[OF s] show ?thesis
    by simp
qed (use assms in simp_all)

lemma scan_locations_length_any:
  "scan_locations ls acc = Inr acc' \<Longrightarrow> length acc' \<le> length acc + 2 * length ls"
proof (induction ls arbitrary: acc)
  case Nil
  then show ?case by simp
next
  case (Cons l ls)
  from Cons.prems obtain acc1 where
    a: "scan_location l acc = Inr acc1" and b: "scan_locations ls acc1 = Inr acc'"
    by (auto simp: and_then_Inr_iff)
  from scan_location_length_any[OF a] Cons.IH[OF b] show ?case
    by simp
qed

lemma scan_locations_length:
  "scan_locations ls acc = Inr acc' \<Longrightarrow> list_all hashable_location ls \<Longrightarrow>
   JNaN \<notin> set (map entry_location_id ls) \<Longrightarrow>
   length acc' \<le> length acc + length ls"
proof (induction ls arbitrary: acc)
  case Nil
  then show ?case by simp
next
  case (Cons l ls)
  from Cons.prems(2) obtain kvs where l: "l = JObj kvs" and h: "py_hashable (location_id_of kvs)"
    by (auto simp: hashable_location_def split: json.splits)
  from Cons.prems(3) l have n: "location_id_of kvs \<noteq> JNaN"
    by (auto simp: entry_location_id_def)
  from Cons.prems(1) obtain acc1 where
    a: "scan_location l acc = Inr acc1" and b: "scan_locations ls acc1 = Inr acc'"
    by (auto simp: and_then_Inr_iff)
  have "length acc1 \<le> Suc (length acc)"
    using scan_location_length[of kvs acc acc1] a l py_eq_refl_hashable[OF h n] by simp
  moreover have "length acc' \<le> length acc1 + length ls"
    using Cons.IH[OF b] Cons.prems(2,3) by simp
  ultimately show ?case by simp
qed

lemma add_names_length: "add_names names locs = Inr locs' \<Longrightarrow> length locs' = length locs"
  by (induction locs arbitrary: locs') (auto simp: and_then_Inr_iff)

lemma py_len_iter: "py_len x = Inr n \<Longrightarrow> py_iter x = Inr ls \<Longrightarrow> length ls = n"
  by (cases x) auto

text \<open>What a returned record is made of.\<close>

lemma parse_stock_response_SomeD:
  assumes "parse_stock_response now data k = Some r"
  obtains entries items item locs n ls avail names named checked where
    "data = JObj entries" and "map_of entries ''items'' = Some items" and
    "py_first items = Inr item" and "py_getitem item ''locations'' = Inr locs" and
    "py_len locs = Inr n" and "py_iter locs = Inr ls" and
    "scan_locations ls [] = Inr avail" and "add_names names avail = Inr named" and
    "checked_names names ls = Inr checked" and
    "r = \<lparr>available = (length named > 0), stores = Some named, total_stores = Some n,
          locations_checked = Some checked, last_checked = Some now, error = None\<rparr>"
proof -
  from assms obtain entries items where
    d: "data = JObj entries" "map_of entries ''items'' = Some items" and
    "parse_items now entries items = Inr (Some r)"
    by (auto simp: parse_stock_response_def parse_try_def and_then_Inr_iff
        split: sum.splits json.splits option.splits if_splits)
  then show thesis
    using that[OF d]
    by (auto simp: parse_items_def and_then_Inr_iff split: if_splits)
qed

lemma not_in_single_char: "\<not> sublist ''locations'' [c]"
  using sublist_length_le[of "''locations''" "[c]"] by auto

text \<open>
  \<^bold>\<open>C7.\<close> When the raw response has no \<^verbatim>\<open>items\<close>, or its \<^verbatim>\<open>items\<close> is not a list, or is
  the empty list, the normalizer returns \<^verbatim>\<open>None\<close>, its failure value, and no record. It
  returns: every exception of the body is caught and turned into \<^verbatim>\<open>None\<close>.
\<close>

theorem no_items_returns_None:
  assumes "lacks_items data"
  shows "parse_stock_response now data k = None"
proof (cases data)
  case (JObj entries)
  show ?thesis
  proof (cases "map_of entries ''items''")
    case None
    with JObj show ?thesis
      by (simp add: parse_stock_response_def parse_try_def)
  next
    case (Some items)
    with JObj assms show ?thesis
      by (cases items)
         (auto simp: parse_stock_response_def parse_try_def parse_items_def lacks_items_def
            not_in_single_char split: list.splits sum.splits)
  qed
qed (simp_all add: parse_stock_response_def parse_try_def)

theorem no_items_returns_None_witness:
  "lacks_items (JObj [(''message'', JStr ''no data yet'')]) \<and>
   lacks_items (JObj [(''items'', JArr [])]) \<and>
   lacks_items (JObj [(''items'', JInt 5)]) \<and>
   lacks_items JNull \<and>
   parse_stock_response ''2025-01-01T09:00:00'' (JObj [(''message'', JStr ''no data yet'')]) ''ABC'' = None \<and>
   parse_stock_response ''2025-01-01T09:00:00'' (JObj [(''items'', JArr [])]) ''ABC'' = None \<and>
   parse_stock_response ''2025-01-01T09:00:00'' (JObj [(''items'', JInt 5)]) ''ABC'' = None \<and>
   parse_stock_response ''2025-01-01T09:00:00'' JNull ''ABC'' = None"
proof -
  have a: "lacks_items (JObj [(''message'', JStr ''no data yet'')])"
    and b: "lacks_items (JObj [(''items'', JArr [])])"
    and c: "lacks_items (JObj [(''items'', JInt 5)])"
    and d: "lacks_items JNull"
    by (simp_all add: lacks_items_def)
  show ?thesis
    using a b c d no_items_returns_None[OF a] no_items_returns_None[OF b]
      no_items_returns_None[OF c] no_items_returns_None[OF d]
    by simp
qed

subsection \<open>Merging the in-store quantity\<close>

lemma map_locationId_set_inStoreQuantity [simp]:
  "map locationId (set_inStoreQuantity lid q acc) = map locationId acc"
  by (induction acc) auto

lemma map_pickupQuantity_set_inStoreQuantity [simp]:
  "map pickupQuantity (set_inStoreQuantity lid q acc) = map pickupQuantity acc"
  by (induction acc) auto






lemma entry_location_id_JObj [simp]: "entry_location_id (JObj kvs) = location_id_of kvs"
  by (simp add: entry_location_id_def)

lemma hashable_chars: "list_all hashable_location (map (\<lambda>c. JStr [c]) s) \<Longrightarrow> s = []"
  by (cases s) (simp_all add: hashable_location_def)

lemma hashable_keys: "list_all hashable_location (map (\<lambda>(k, v). JStr k) kvs) \<Longrightarrow> kvs = []"
  by (cases kvs) (simp_all add: hashable_location_def split: prod.splits)



lemma py_iter_provider_locations:
  assumes "data = JObj entries" and "map_of entries ''items'' = Some items"
    and "py_first items = Inr item" and "py_getitem item ''locations'' = Inr locs"
    and "py_iter locs = Inr ls" and "list_all hashable_location ls"
  shows "ls = provider_locations data"
proof -
  from assms(4) obtain ikvs where item: "item = JObj ikvs" and l: "map_of ikvs ''locations'' = Some locs"
    by (cases item) (auto split: option.splits)
  from assms(3) item obtain others where items: "items = JArr (JObj ikvs # others)"
    by (cases items) (auto split: list.splits)
  from assms(5,6) have "locs = JArr ls \<or> ls = []"
    by (cases locs) (auto dest: hashable_chars hashable_keys)
  then show ?thesis
    using assms(1,2,5) items l
    by (cases locs) (auto simp: provider_locations_def)
qed








subsection \<open>The two invariants of a record\<close>

text \<open>
  Every returned record has \<^verbatim>\<open>available\<close> equal to \<^verbatim>\<open>len(stores) > 0\<close>, and a location
  gives at most two stores. It gives at most one, so that \<^verbatim>\<open>total_stores\<close> is at least the
  number of stores, when no \<^verbatim>\<open>locationId\<close> of the provider's array is \<^verbatim>\<open>nan\<close>.
\<close>

lemma record_invariants_without_nan:
  assumes "parse_stock_response now data k = Some r"
  shows "\<exists>ss n. stores r = Some ss \<and> total_stores r = Some n \<and>
           available r = (length ss > 0) \<and> length ss \<le> 2 * n \<and>
           (JNaN \<notin> set (map entry_location_id (provider_locations data)) \<longrightarrow> length ss \<le> n)"
proof -
  from assms obtain entries items item locs n ls avail names named checked where
    d: "data = JObj entries" "map_of entries ''items'' = Some items"
       "py_first items = Inr item" "py_getitem item ''locations'' = Inr locs" and
    n: "py_len locs = Inr n" and ls: "py_iter locs = Inr ls" and
    sc: "scan_locations ls [] = Inr avail" and an: "add_names names avail = Inr named" and
    ch: "checked_names names ls = Inr checked" and
    r: "r = \<lparr>available = (length named > 0), stores = Some named, total_stores = Some n,
             locations_checked = Some checked, last_checked = Some now, error = None\<rparr>"
    by (rule parse_stock_response_SomeD)
  have h: "list_all hashable_location ls"
    using checked_names_hashable[OF ch] .
  have pl: "ls = provider_locations data"
    using py_iter_provider_locations[OF d ls h] .
  have l1: "length named = length avail"
    using add_names_length[OF an] .
  have l2: "length ls = n"
    using py_len_iter[OF n ls] .
  have l3: "length avail \<le> 2 * length ls"
    using scan_locations_length_any[OF sc] by simp
  have l4: "length avail \<le> length ls"
    if "JNaN \<notin> set (map entry_location_id (provider_locations data))"
    using scan_locations_length[OF sc h] that pl by simp
  show ?thesis
    using l1 l2 l3 l4 by (simp add: r del: length_greater_0_conv)
qed

lemma record_invariants_without_nan_example:
  "parse_stock_response ''2025-01-01T09:00:00'' spec_example ''ABC''
     = Some (spec_example_record ''2025-01-01T09:00:00'') \<and>
   JNaN \<notin> set (map entry_location_id (provider_locations spec_example)) \<and>
   (\<exists>ss n. stores (spec_example_record ''2025-01-01T09:00:00'') = Some ss \<and>
      total_stores (spec_example_record ''2025-01-01T09:00:00'') = Some n \<and>
      available (spec_example_record ''2025-01-01T09:00:00'') = (length ss > 0) \<and>
      length ss \<le> n)"
proof -
  have c: "JNaN \<notin> set (map entry_location_id (provider_locations spec_example))"
    by (simp add: provider_locations_def spec_example_def location_id_of_def)
  show ?thesis
    using record_invariants_without_nan[OF parse_spec_example] parse_spec_example c
    by blast
qed

text \<open>
  \<^bold>\<open>C5\<close> (what the code does where the claim fails). The claim is that every record has
  \<^verbatim>\<open>available\<close> equal to \<^verbatim>\<open>len(stores) > 0\<close> and \<^verbatim>\<open>total_stores\<close> at least the number of
  its stores. For one location whose \<^verbatim>\<open>locationId\<close> is \<^verbatim>\<open>nan\<close>, with stock to pick up and
  in the store, the search of line 230 does not find the entry that the pickup block has
  just appended, since \<^verbatim>\<open>nan == nan\<close> is false, and the in-store block appends a second
  entry: the record has two stores and \<^verbatim>\<open>total_stores\<close> is 1.
\<close>

theorem nan_location_gives_two_stores:
  "parse_stock_response ''t1'' nan_example ''ABC'' = Some (nan_example_record ''t1'') \<and>
   length (provider_locations nan_example) = 1 \<and>
   total_stores (nan_example_record ''t1'') = Some 1 \<and>
   stores (nan_example_record ''t1'') = Some nan_example_stores \<and>
   length nan_example_stores = 2 \<and>
   map fulfillmentType nan_example_stores = [JStr ''PICKUP'', JStr ''IN_STORE'']"
  by (simp add: nan_example_def nan_example_record_def nan_example_stores_def
      parse_stock_response_def parse_try_def parse_items_def check_pickup_def check_in_store_def
      location_id_of_def existing_location_def build_location_names_def names_get_def
      provider_locations_def)


section \<open>Properties of the reconciler\<close>

text \<open>The timestamp only goes into \<^verbatim>\<open>last_checked\<close>.\<close>

lemma parse_items_now:
  "parse_items now entries items =
     map_sum id (map_option (\<lambda>r. r\<lparr>last_checked := Some now\<rparr>)) (parse_items now' entries items)"
  by (auto simp: parse_items_def and_then_def split: sum.splits)

lemma parse_stock_response_now:
  "parse_stock_response now data k =
     map_option (\<lambda>r. r\<lparr>last_checked := Some now\<rparr>) (parse_stock_response now' data k)"
  using parse_items_now[of now _ _ now']
  by (auto simp: parse_stock_response_def parse_try_def and_then_def
      split: sum.splits json.splits option.splits)

lemma check_product_availability_available:
  "rel_option (\<lambda>r r'. available r = available r')
     (check_product_availability now sg k z) (check_product_availability now' sg k z)"
  using parse_stock_response_now[of now _ k now']
  by (auto simp: check_product_availability_def option.rel_map option.rel_refl
      split: http_result.splits option.splits)

lemma monitor_product_None:
  assumes "check_product_availability now sg (sku p) (zip_code p) = None"
  shows "monitor_product u now sg p st = st"
  using assms by (simp add: monitor_product_def)

lemma monitor_product_Some:
  assumes "check_product_availability now sg (sku p) (zip_code p) = Some cur"
  shows "monitor_product u now sg p st =
           ((fst st)\<lparr>last_stock_status := AList.update (sku p) cur (last_stock_status (fst st))\<rparr>,
            if restock_detected cur (map_of (last_stock_status (fst st)) (sku p))
            then snd st @ [restock_alert u now (PRODUCTS_TO_MONITOR (fst st)) p cur]
            else snd st)"
  using assms by (simp add: monitor_product_def Let_def)

text \<open>
  The law of one pass of the loop body. When the fetch for a product gives a record, the
  alert is sent exactly when the record is available and the entry of the status store
  under the product's SKU is missing or not available; in every other case nothing is
  sent. Either way the entry is replaced by the new record. The entry is the one under the
  SKU: it is the product's own last record only when no other product of the catalog has
  the same SKU.
\<close>

theorem restock_alert_iff_transition:
  assumes "check_product_availability now session_get (sku p) (zip_code p) = Some cur"
  shows "monitor_product user_id now session_get p (b, sent) =
           (b\<lparr>last_stock_status := AList.update (sku p) cur (last_stock_status b)\<rparr>,
            if available cur \<and>
               (case map_of (last_stock_status b) (sku p) of
                  None \<Rightarrow> True | Some prev \<Rightarrow> \<not> available prev)
            then sent @ [restock_alert user_id now (PRODUCTS_TO_MONITOR b) p cur]
            else sent)"
  using monitor_product_Some[OF assms, of user_id "(b, sent)"]
  by (simp add: restock_detected_def split: option.splits)

text \<open>
  Two passes of the loop body for the same product with nothing in between: against the
  same answer of the provider the second pass sends nothing, and once the first pass has
  sent an alert, the pass that follows it sends nothing, whatever the provider answers
  then. The loop makes two such passes in a row only when the catalog has this one
  product.
\<close>

theorem reconcile_twice_no_second_alert:
  "snd (monitor_product user_id now' session_get p
          (monitor_product user_id now session_get p st))
     = snd (monitor_product user_id now session_get p st) \<and>
   (snd (monitor_product user_id now session_get p st) \<noteq> snd st \<longrightarrow>
    snd (monitor_product user_id now' session_get' p
          (monitor_product user_id now session_get p st))
     = snd (monitor_product user_id now session_get p st))"
proof (cases "check_product_availability now session_get (sku p) (zip_code p)")
  case None
  then have "check_product_availability now' session_get (sku p) (zip_code p) = None"
    using check_product_availability_available[of now session_get "sku p" "zip_code p" now']
    by simp
  with None show ?thesis
    by (simp add: monitor_product_None)
next
  case (Some cur1)
  let ?st1 = "monitor_product user_id now session_get p st"
  have st1: "map_of (last_stock_status (fst ?st1)) (sku p) = Some cur1"
    by (simp add: monitor_product_Some[OF Some] update_conv')
  have same: "snd (monitor_product user_id now' session_get p ?st1) = snd ?st1"
  proof -
    obtain cur2 where c2: "check_product_availability now' session_get (sku p) (zip_code p) = Some cur2"
      and av: "available cur2 = available cur1"
      using check_product_availability_available[of now' session_get "sku p" "zip_code p" now] Some
      by (auto simp: option_rel_Some2)
    show ?thesis
      by (simp add: monitor_product_Some[OF c2] st1 restock_detected_def av)
  qed
  have fired: "snd (monitor_product user_id now' session_get' p ?st1) = snd ?st1"
    if "snd ?st1 \<noteq> snd st"
  proof -
    from that have a1: "available cur1"
      by (simp add: monitor_product_Some[OF Some] restock_detected_def split: if_splits)
    show ?thesis
    proof (cases "check_product_availability now' session_get' (sku p) (zip_code p)")
      case None
      then show ?thesis by (simp add: monitor_product_None)
    next
      case (Some cur2)
      then show ?thesis
        by (simp add: monitor_product_Some[OF Some] st1 restock_detected_def a1)
    qed
  qed
  from same fired show ?thesis by blast
qed

lemma parse_sold_out_example:
  "parse_stock_response now sold_out_example k = Some (sold_out_record now)"
  by (simp add: sold_out_example_def sold_out_record_def parse_stock_response_def parse_try_def
      parse_items_def check_pickup_def check_in_store_def location_id_of_def
      build_location_names_def put_location_name_def names_get_def)

lemma check_in_stock_session:
  "check_product_availability now in_stock_session k z = Some (spec_example_record now)"
  by (simp add: check_product_availability_def in_stock_session_def parse_spec_example)

lemma check_sold_out_session:
  "check_product_availability now sold_out_session k z = Some (sold_out_record now)"
  by (simp add: check_product_availability_def sold_out_session_def parse_sold_out_example)

lemma check_not_found_session:
  "check_product_availability now not_found_session k z = Some not_found_status"
  by (simp add: check_product_availability_def not_found_session_def)

theorem restock_alert_iff_transition_witness:
  "snd (monitor_product ''42'' ''t1'' in_stock_session booster_box (bot_with [], []))
     = [restock_alert ''42'' ''t1'' [booster_box] booster_box (spec_example_record ''t1'')] \<and>
   snd (monitor_product ''42'' ''t1'' in_stock_session booster_box
          (bot_with [(''ABC'', sold_out_record ''t0'')], []))
     = [restock_alert ''42'' ''t1'' [booster_box] booster_box (spec_example_record ''t1'')] \<and>
   snd (monitor_product ''42'' ''t1'' in_stock_session booster_box
          (bot_with [(''ABC'', spec_example_record ''t0'')], [])) = [] \<and>
   snd (monitor_product ''42'' ''t1'' sold_out_session booster_box
          (bot_with [(''ABC'', spec_example_record ''t0'')], [])) = [] \<and>
   snd (monitor_product ''42'' ''t1'' sold_out_session booster_box
          (bot_with [(''ABC'', sold_out_record ''t0'')], [])) = [] \<and>
   last_stock_status (fst (monitor_product ''42'' ''t1'' sold_out_session booster_box
          (bot_with [(''ABC'', spec_example_record ''t0'')], [])))
     = [(''ABC'', sold_out_record ''t1'')]"
  using restock_alert_iff_transition[OF check_in_stock_session,
      where now = "''t1''" and p = booster_box and user_id = "''42''"]
    restock_alert_iff_transition[OF check_sold_out_session,
      where now = "''t1''" and p = booster_box and user_id = "''42''"]
  by (simp add: bot_with_def booster_box_def spec_example_record_def sold_out_record_def)

theorem reconcile_twice_no_second_alert_witness:
  "snd (monitor_product ''42'' ''t1'' in_stock_session booster_box (bot_with [], [])) \<noteq> [] \<and>
   snd (monitor_product ''42'' ''t2'' in_stock_session booster_box
          (monitor_product ''42'' ''t1'' in_stock_session booster_box (bot_with [], [])))
     = snd (monitor_product ''42'' ''t1'' in_stock_session booster_box (bot_with [], [])) \<and>
   snd (monitor_product ''42'' ''t2'' sold_out_session booster_box
          (monitor_product ''42'' ''t1'' in_stock_session booster_box (bot_with [], [])))
     = snd (monitor_product ''42'' ''t1'' in_stock_session booster_box (bot_with [], []))"
proof -
  have fired: "snd (monitor_product ''42'' ''t1'' in_stock_session booster_box (bot_with [], []))
                 \<noteq> snd (bot_with [], [])"
    by (simp add: monitor_product_Some[OF check_in_stock_session] restock_detected_def
        bot_with_def booster_box_def spec_example_record_def)
  show ?thesis
    using fired
      reconcile_twice_no_second_alert[where user_id = "''42''" and now' = "''t2''"
        and session_get = in_stock_session and p = booster_box and now = "''t1''"
        and st = "(bot_with [], [])" and session_get' = sold_out_session]
    by simp
qed

lemma fetch_failed_None:
  "fetch_failed (sg k z) \<Longrightarrow> check_product_availability now sg k z = None"
  by (auto simp: fetch_failed_def check_product_availability_def split: http_result.splits)

lemma not_found_Some:
  "sg k z = Response 404 body \<Longrightarrow> check_product_availability now sg k z = Some not_found_status"
  by (simp add: check_product_availability_def)

text \<open>
  \<^bold>\<open>C3\<close> (as amended). When the request times out, the transport raises, or the status is
  neither 200 nor 404, the loop body leaves the status store and the sent messages as they
  are and the loop goes on with the next product. On status 404 no alert is sent and the
  loop goes on as well, but the entry under the product's SKU is replaced by the record
  \<^verbatim>\<open>{'available': False, 'error': 'Product not found'}\<close>.
\<close>

theorem fetch_failure_skips_product:
  "(fetch_failed (session_get (sku p) (zip_code p)) \<longrightarrow>
      monitor_product user_id now session_get p st = st \<and>
      monitor_loop user_id now session_get (p # rest) st
        = monitor_loop user_id now session_get rest st) \<and>
   (session_get (sku p) (zip_code p) = Response 404 body \<longrightarrow>
      monitor_product user_id now session_get p (b, sent)
        = (b\<lparr>last_stock_status :=
               AList.update (sku p) not_found_status (last_stock_status b)\<rparr>, sent) \<and>
      monitor_loop user_id now session_get (p # rest) (b, sent)
        = monitor_loop user_id now session_get rest
            (b\<lparr>last_stock_status :=
                 AList.update (sku p) not_found_status (last_stock_status b)\<rparr>, sent))"
proof (intro conjI impI)
  assume "fetch_failed (session_get (sku p) (zip_code p))"
  then have "check_product_availability now session_get (sku p) (zip_code p) = None"
    by (rule fetch_failed_None)
  then show a: "monitor_product user_id now session_get p st = st"
    by (rule monitor_product_None)
  show "monitor_loop user_id now session_get (p # rest) st
          = monitor_loop user_id now session_get rest st"
    by (simp add: a)
next
  assume "session_get (sku p) (zip_code p) = Response 404 body"
  then have c: "check_product_availability now session_get (sku p) (zip_code p)
                  = Some not_found_status"
    by (rule not_found_Some)
  show a: "monitor_product user_id now session_get p (b, sent)
        = (b\<lparr>last_stock_status :=
               AList.update (sku p) not_found_status (last_stock_status b)\<rparr>, sent)"
    by (simp add: monitor_product_Some[OF c] restock_detected_def not_found_status_def)
  show "monitor_loop user_id now session_get (p # rest) (b, sent)
        = monitor_loop user_id now session_get rest
            (b\<lparr>last_stock_status :=
                 AList.update (sku p) not_found_status (last_stock_status b)\<rparr>, sent)"
    by (simp add: a)
qed

theorem fetch_failure_skips_product_witness:
  "fetch_failed (timeout_session (sku booster_box) (zip_code booster_box)) \<and>
   monitor_product ''42'' ''t1'' timeout_session booster_box
       (bot_with [(''ABC'', spec_example_record ''t0'')], [])
     = (bot_with [(''ABC'', spec_example_record ''t0'')], []) \<and>
   monitor_loop ''42'' ''t1'' timeout_session [booster_box, booster_box]
       (bot_with [(''ABC'', spec_example_record ''t0'')], [])
     = monitor_loop ''42'' ''t1'' timeout_session [booster_box]
       (bot_with [(''ABC'', spec_example_record ''t0'')], []) \<and>
   not_found_session (sku booster_box) (zip_code booster_box) = Response 404 None \<and>
   monitor_product ''42'' ''t1'' not_found_session booster_box
       (bot_with [(''ABC'', spec_example_record ''t0'')], [])
     = (bot_with [(''ABC'', not_found_status)], [])"
proof -
  have f: "fetch_failed (timeout_session (sku booster_box) (zip_code booster_box))"
    by (simp add: fetch_failed_def timeout_session_def)
  have n: "not_found_session (sku booster_box) (zip_code booster_box) = Response 404 None"
    by (simp add: not_found_session_def)
  show ?thesis
    using f n
      fetch_failure_skips_product[where session_get = timeout_session and p = booster_box
        and user_id = "''42''" and now = "''t1''" and rest = "[booster_box]"
        and st = "(bot_with [(''ABC'', spec_example_record ''t0'')], [])"]
      fetch_failure_skips_product[where session_get = not_found_session and p = booster_box
        and user_id = "''42''" and now = "''t1''" and body = None
        and b = "bot_with [(''ABC'', spec_example_record ''t0'')]" and sent = "[]"]
    by (simp add: bot_with_def booster_box_def)
qed

text \<open>C3 as stated fails for 404: the entry of an available product is overwritten.\<close>

theorem not_found_overwrites_status_entry:
  "last_stock_status (fst (monitor_product ''42'' ''t1'' not_found_session booster_box
       (bot_with [(''ABC'', spec_example_record ''t0'')], [])))
     = [(''ABC'', not_found_status)] \<and>
   last_stock_status (fst (monitor_product ''42'' ''t1'' not_found_session booster_box
       (bot_with [(''ABC'', spec_example_record ''t0'')], [])))
     \<noteq> last_stock_status (bot_with [(''ABC'', spec_example_record ''t0'')])"
  by (simp add: monitor_product_Some[OF check_not_found_session] bot_with_def booster_box_def
      not_found_status_def spec_example_record_def)

lemma check_two_zip_session:
  "check_product_availability now two_zip_session k ''90001'' = Some (spec_example_record now)"
  "check_product_availability now two_zip_session k ''90002'' = Some (sold_out_record now)"
  by (simp_all add: check_product_availability_def two_zip_session_def parse_spec_example
      parse_sold_out_example)

text \<open>
  \<^bold>\<open>C2\<close> (what the code does where the claim fails). The claim is that the store is keyed
  by the pair of SKU and zip code, so that two zip codes of one SKU have records of their
  own and \<^verbatim>\<open>remove\<close> evicts the entry of its pair only. The dictionary is keyed by the SKU
  alone: with one SKU watched at two zip codes, in stock at the first only, a cycle leaves
  a single entry (the record of the second zip code), the next cycle sends the alert for
  the first zip code again, and removing the first pair deletes the entry although the
  second pair is still watched.
\<close>

theorem same_sku_at_two_zip_codes_shares_one_entry:
  "monitor_restocks True ''42'' ''t1'' two_zip_session (two_zip_bot [])
     = (two_zip_bot [(''ABC'', sold_out_record ''t1'')],
        [restock_alert ''42'' ''t1'' [box_at ''90001'', box_at ''90002''] (box_at ''90001'')
           (spec_example_record ''t1'')]) \<and>
   monitor_restocks True ''42'' ''t2'' two_zip_session
       (two_zip_bot [(''ABC'', sold_out_record ''t1'')])
     = (two_zip_bot [(''ABC'', sold_out_record ''t2'')],
        [restock_alert ''42'' ''t2'' [box_at ''90001'', box_at ''90002''] (box_at ''90001'')
           (spec_example_record ''t2'')]) \<and>
   fst (remove_product ''ABC'' ''90001'' (two_zip_bot [(''ABC'', sold_out_record ''t1'')]))
     = \<lparr>PRODUCTS_TO_MONITOR = [box_at ''90002''], last_stock_status = []\<rparr>"
  by (simp add: monitor_restocks_def monitor_product_def check_two_zip_session two_zip_bot_def
      box_at_def restock_detected_def spec_example_record_def sold_out_record_def
      remove_product_def AList.delete_eq Let_def)

text \<open>
  \<^bold>\<open>C1\<close> (what the code does where the claim fails). The claim is that the alert for a
  product is never sent on a transition from available to available. With one SKU watched
  at two zip codes, in stock at the first only, the product at the first zip code is
  fetched available in the first cycle and available again in the second, and the second
  pass of the loop body for it sends the alert again: the entry it is compared with is the
  record that the product at the second zip code left under the same SKU.
\<close>

theorem available_product_alerted_again:
  "check_product_availability ''t1'' two_zip_session ''ABC'' ''90001''
     = Some (spec_example_record ''t1'') \<and>
   available (spec_example_record ''t1'') \<and>
   check_product_availability ''t2'' two_zip_session ''ABC'' ''90001''
     = Some (spec_example_record ''t2'') \<and>
   available (spec_example_record ''t2'') \<and>
   monitor_restocks True ''42'' ''t1'' two_zip_session (two_zip_bot [])
     = (two_zip_bot [(''ABC'', sold_out_record ''t1'')],
        [restock_alert ''42'' ''t1'' [box_at ''90001'', box_at ''90002''] (box_at ''90001'')
           (spec_example_record ''t1'')]) \<and>
   monitor_product ''42'' ''t2'' two_zip_session (box_at ''90001'')
       (two_zip_bot [(''ABC'', sold_out_record ''t1'')], [])
     = (two_zip_bot [(''ABC'', spec_example_record ''t2'')],
        [restock_alert ''42'' ''t2'' [box_at ''90001'', box_at ''90002''] (box_at ''90001'')
           (spec_example_record ''t2'')])"
  by (simp add: monitor_restocks_def monitor_product_def check_two_zip_session two_zip_bot_def
      box_at_def restock_detected_def spec_example_record_def sold_out_record_def Let_def)

text \<open>
  \<^bold>\<open>C8\<close> (what the code does where the claim fails). The claim is that checking the same
  product again against the same unchanged answer sends no second alert. With one SKU
  watched at two zip codes, the loop checks the product at the second zip code between two
  checks of the product at the first; the answers of the provider are the same throughout,
  and the second check of the first product sends the alert a second time.
\<close>

theorem unchanged_answers_alert_again:
  "snd (monitor_product ''42'' ''t1'' two_zip_session (box_at ''90001'') (two_zip_bot [], []))
     = [restock_alert ''42'' ''t1'' [box_at ''90001'', box_at ''90002''] (box_at ''90001'')
          (spec_example_record ''t1'')] \<and>
   snd (monitor_product ''42'' ''t2'' two_zip_session (box_at ''90001'')
         (monitor_product ''42'' ''t1'' two_zip_session (box_at ''90002'')
           (monitor_product ''42'' ''t1'' two_zip_session (box_at ''90001'')
             (two_zip_bot [], []))))
     = [restock_alert ''42'' ''t1'' [box_at ''90001'', box_at ''90002''] (box_at ''90001'')
          (spec_example_record ''t1''),
        restock_alert ''42'' ''t2'' [box_at ''90001'', box_at ''90002''] (box_at ''90001'')
          (spec_example_record ''t2'')]"
  by (simp add: monitor_product_def check_two_zip_session two_zip_bot_def
      box_at_def restock_detected_def spec_example_record_def sold_out_record_def Let_def)

subsection \<open>A whole cycle\<close>

lemma monitor_product_catalog [simp]:
  "PRODUCTS_TO_MONITOR (fst (monitor_product u now sg p st)) = PRODUCTS_TO_MONITOR (fst st)"
  by (cases "check_product_availability now sg (sku p) (zip_code p)")
     (simp_all add: monitor_product_None monitor_product_Some)

lemma monitor_product_other_sku:
  "k \<noteq> sku p \<Longrightarrow>
   map_of (last_stock_status (fst (monitor_product u now sg p st))) k
     = map_of (last_stock_status (fst st)) k"
  by (cases "check_product_availability now sg (sku p) (zip_code p)")
     (simp_all add: monitor_product_None monitor_product_Some update_conv')

lemma monitor_product_sent:
  "snd (monitor_product u now sg p st) = snd st @ snd (monitor_product u now sg p (fst st, []))"
  by (cases "check_product_availability now sg (sku p) (zip_code p)")
     (simp_all add: monitor_product_None monitor_product_Some)

lemma monitor_product_sent_cong:
  assumes "map_of (last_stock_status b) (sku p) = map_of (last_stock_status b') (sku p)"
    and "PRODUCTS_TO_MONITOR b = PRODUCTS_TO_MONITOR b'"
  shows "snd (monitor_product u now sg p (b, [])) = snd (monitor_product u now sg p (b', []))"
  using assms
  by (cases "check_product_availability now sg (sku p) (zip_code p)")
     (simp_all add: monitor_product_None monitor_product_Some)

lemma monitor_loop_catalog [simp]:
  "PRODUCTS_TO_MONITOR (fst (monitor_loop u now sg ps st)) = PRODUCTS_TO_MONITOR (fst st)"
  by (induction ps arbitrary: st) simp_all

lemma monitor_loop_other_sku:
  "k \<notin> sku ` set ps \<Longrightarrow>
   map_of (last_stock_status (fst (monitor_loop u now sg ps st))) k
     = map_of (last_stock_status (fst st)) k"
  by (induction ps arbitrary: st) (simp_all add: monitor_product_other_sku)

text \<open>In a cycle over products with different SKUs, each product is judged against the
  store as it was when the cycle began.\<close>

lemma monitor_loop_sent:
  assumes "distinct (map sku ps)"
  shows "snd (monitor_loop u now sg ps st) =
           snd st @ concat (map (\<lambda>p. snd (monitor_product u now sg p (fst st, []))) ps)"
  using assms
proof (induction ps arbitrary: st)
  case Nil
  then show ?case by simp
next
  case (Cons p ps)
  let ?st = "monitor_product u now sg p st"
  have same: "snd (monitor_product u now sg q (fst ?st, []))
                = snd (monitor_product u now sg q (fst st, []))"
    if "q \<in> set ps" for q
  proof -
    from that have "sku q \<in> sku ` set ps" by (rule imageI)
    with Cons.prems have "sku q \<noteq> sku p" by auto
    then have "map_of (last_stock_status (fst ?st)) (sku q)
                 = map_of (last_stock_status (fst st)) (sku q)"
      by (rule monitor_product_other_sku)
    then show ?thesis
      by (rule monitor_product_sent_cong) simp
  qed
  have "snd (monitor_loop u now sg (p # ps) st) = snd (monitor_loop u now sg ps ?st)"
    by simp
  also have "\<dots> = snd ?st @
     concat (map (\<lambda>q. snd (monitor_product u now sg q (fst ?st, []))) ps)"
    using Cons.IH[of ?st] Cons.prems by simp
  also have "map (\<lambda>q. snd (monitor_product u now sg q (fst ?st, []))) ps
               = map (\<lambda>q. snd (monitor_product u now sg q (fst st, []))) ps"
    using same by (rule map_cong[OF refl])
  finally show ?case
    using monitor_product_sent[of u now sg p st] by simp
qed

lemma monitor_loop_stored:
  assumes "distinct (map sku ps)" and "p \<in> set ps"
    and "check_product_availability now sg (sku p) (zip_code p) = Some cur"
  shows "map_of (last_stock_status (fst (monitor_loop u now sg ps st))) (sku p) = Some cur"
  using assms(1,2)
proof (induction ps arbitrary: st)
  case Nil
  then show ?case by simp
next
  case (Cons q ps)
  show ?case
  proof (cases "p \<in> set ps")
    case True
    with Cons.IH[of "monitor_product u now sg q st"] Cons.prems show ?thesis
      by simp
  next
    case False
    with Cons.prems have pq: "p = q" and "sku p \<notin> sku ` set ps" by auto
    then have "map_of (last_stock_status (fst (monitor_loop u now sg ps
                 (monitor_product u now sg q st)))) (sku p)
               = map_of (last_stock_status (fst (monitor_product u now sg q st))) (sku p)"
      by (intro monitor_loop_other_sku)
    also have "\<dots> = Some cur"
      using assms(3) pq by (simp add: monitor_product_Some update_conv')
    finally show ?thesis by simp
  qed
qed

text \<open>When no two products of the catalog have the same SKU, a second cycle against the
  same answers of the provider sends nothing.\<close>

lemma second_cycle_sends_nothing:
  assumes "distinct (map sku (PRODUCTS_TO_MONITOR b))"
  shows "snd (monitor_restocks channel u now' sg (fst (monitor_restocks channel u now sg b))) = []"
proof (cases channel)
  case False
  then show ?thesis by (simp add: monitor_restocks_def)
next
  case True
  let ?ps = "PRODUCTS_TO_MONITOR b"
  let ?b1 = "fst (monitor_loop u now sg ?ps (b, []))"
  have quiet: "snd (monitor_product u now' sg p (?b1, [])) = []" if p: "p \<in> set ?ps" for p
  proof (cases "check_product_availability now' sg (sku p) (zip_code p)")
    case None
    then show ?thesis by (simp add: monitor_product_None)
  next
    case (Some cur')
    then obtain cur where c: "check_product_availability now sg (sku p) (zip_code p) = Some cur"
      and av: "available cur' = available cur"
      using check_product_availability_available[of now' sg "sku p" "zip_code p" now]
      by (auto simp: option_rel_Some1)
    have "map_of (last_stock_status ?b1) (sku p) = Some cur"
      using monitor_loop_stored[OF assms p c] .
    with Some av show ?thesis
      by (simp add: monitor_product_Some restock_detected_def)
  qed
  have "concat (map (\<lambda>p. snd (monitor_product u now' sg p (?b1, []))) ?ps) = []"
    using quiet by simp
  then have "snd (monitor_loop u now' sg ?ps (?b1, [])) = []"
    using monitor_loop_sent[OF assms, of u now' sg "(?b1, [])"] by simp
  with True show ?thesis
    by (simp add: monitor_restocks_def)
qed


section \<open>Properties of the status command\<close>

text \<open>
  \<^bold>\<open>C10.\<close> While the status store is empty, the status command replies that no products
  have been checked yet and returns, whatever the priority filter is: the filter is only
  validated after that test, so an invalid filter gets this reply too.
\<close>

theorem status_with_empty_store:
  assumes "last_stock_status b = []"
  shows "check_status now priority_filter b = (b, [not_checked_yet])"
  using assms by (simp add: check_status_def not_checked_yet_def)

theorem status_with_empty_store_witness:
  "last_stock_status (bot_with []) = [] \<and>
   check_status ''t1'' (Some ''urgent'') (bot_with []) = (bot_with [], [not_checked_yet]) \<and>
   not_checked_yet \<noteq> invalid_priority_filter"
  using status_with_empty_store[where b = "bot_with []" and now = "''t1''"
      and priority_filter = "Some ''urgent''"]
  by (simp add: bot_with_def not_checked_yet_def invalid_priority_filter_def text_message_def)

text \<open>
  \<^bold>\<open>C9\<close> (as amended). When the status store is not empty, the status command called with
  a filter that is not empty and whose lower-case form is none of top, high, medium, low
  replies with the validation message and changes neither the catalog nor the store.
\<close>

theorem invalid_priority_filter_rejected:
  assumes "last_stock_status b \<noteq> []" and "f \<noteq> []" and "py_lower f \<notin> set valid_priorities"
  shows "check_status now (Some f) b = (b, [invalid_priority_filter])"
  using assms
  by (simp add: check_status_def invalid_priority_filter_def filter_rejected_def truthy_filter_def
      valid_priorities_def)

theorem invalid_priority_filter_rejected_witness:
  "last_stock_status (bot_with [(''ABC'', sold_out_record ''t0'')]) \<noteq> [] \<and>
   ''urgent'' \<noteq> [] \<and> py_lower ''urgent'' \<notin> set valid_priorities \<and>
   check_status ''t1'' (Some ''urgent'') (bot_with [(''ABC'', sold_out_record ''t0'')])
     = (bot_with [(''ABC'', sold_out_record ''t0'')], [invalid_priority_filter])"
proof -
  have a: "last_stock_status (bot_with [(''ABC'', sold_out_record ''t0'')]) \<noteq> []"
    by (simp add: bot_with_def)
  have b: "''urgent'' \<noteq> []" by simp
  have c: "py_lower ''urgent'' \<notin> set valid_priorities"
    by (simp add: py_lower_def valid_priorities_def)
  show ?thesis
    using a b c invalid_priority_filter_rejected[OF a b c, of "''t1''"] by simp
qed

text \<open>C9 as stated fails before the first cycle: with an empty store the filter
  \<^verbatim>\<open>urgent\<close> gets the other reply.\<close>

theorem status_urgent_before_first_cycle:
  "snd (check_status ''t1'' (Some ''urgent'') (bot_with [])) = [not_checked_yet] \<and>
   snd (check_status ''t1'' (Some ''urgent'') (bot_with [])) \<noteq> [invalid_priority_filter]"
  by (simp add: check_status_def bot_with_def not_checked_yet_def invalid_priority_filter_def
      text_message_def)

lemma group_bot23:
  "group_products None (last_stock_status bot23) (PRODUCTS_TO_MONITOR bot23)
     = (map letter_info letters23, [])"
  by code_simp

lemma create_status_embed_many:
  assumes "10 < length products"
  shows "create_status_embed now products ttl col =
           Some \<lparr>title = ttl, description = None, color = col, timestamp = now,
                 embed_fields = map status_field (take 10 products) @
                                [more_products_field (length products - 10)]\<rparr>"
  using assms by (auto simp: create_status_embed_def)

lemma status_embeds_unavailable_only:
  "length (status_embeds now [] unav) \<le> 1"
  by (simp add: status_embeds_def create_status_embed_def)

text \<open>
  \<^bold>\<open>C4\<close> (as amended). When more than ten products are available, 23 for instance, the
  status command sends one message for the available group: it has the first ten products
  in catalog order as detailed entries, followed by one notice that counts the others
  (13 for 23 products), which are not shown. At most one more message follows, for the
  products out of stock.
\<close>

theorem status_listing_truncates_after_ten:
  assumes "last_stock_status b \<noteq> []"
    and "\<not> filter_rejected pf"
    and "group_products pf (last_stock_status b) (PRODUCTS_TO_MONITOR b) = (av, unav)"
    and "10 < length av"
  shows "\<exists>e. snd (check_status now pf b)
               = embed_message e # map embed_message (status_embeds now [] unav) \<and>
             embed_fields e = map status_field (take 10 av) @
                              [more_products_field (length av - 10)] \<and>
             length (status_embeds now [] unav) \<le> 1"
proof -
  from assms(4) have ne: "av \<noteq> []" by auto
  let ?e = "\<lparr>title = [Lit (emoji_check @ '' Available Products (''),
                       Fmt (JInt (int (length av))), Lit '')''],
              description = None, color = 0x00ff00, timestamp = now,
              embed_fields = map status_field (take 10 av) @
                             [more_products_field (length av - 10)]\<rparr>"
  have "status_embeds now av unav = ?e # status_embeds now [] unav"
    using ne by (simp add: status_embeds_def create_status_embed_many[OF assms(4)])
  then have "snd (check_status now pf b)
               = embed_message ?e # map embed_message (status_embeds now [] unav)"
    using assms(1,2,3) by (auto simp: check_status_def Let_def)
  then show ?thesis
    using status_embeds_unavailable_only by (intro exI[of _ ?e]) simp
qed

theorem status_listing_truncates_after_ten_witness:
  "last_stock_status bot23 \<noteq> [] \<and>
   \<not> filter_rejected None \<and>
   group_products None (last_stock_status bot23) (PRODUCTS_TO_MONITOR bot23)
     = (map letter_info letters23, []) \<and>
   10 < length (map letter_info letters23) \<and>
   (\<exists>e. snd (check_status ''t1'' None bot23) = [embed_message e] \<and>
        embed_fields e = map status_field (map letter_info ''ABCDEFGHIJ'') @
                         [more_products_field 13])"
proof -
  have a: "last_stock_status bot23 \<noteq> []"
    by (simp add: bot23_def letters23_def)
  have b: "\<not> filter_rejected None"
    by (simp add: filter_rejected_def truthy_filter_def)
  have c: "10 < length (map letter_info letters23)"
    by (simp add: letters23_def)
  have d: "take 10 (map letter_info letters23) = map letter_info ''ABCDEFGHIJ''"
          "length (map letter_info letters23) - 10 = 13"
    by (simp_all add: letters23_def)
  have e: "status_embeds ''t1'' [] [] = []"
    by (simp add: status_embeds_def)
  show ?thesis
    using a b c group_bot23
      status_listing_truncates_after_ten[OF a b group_bot23 c, of "''t1''"]
    by (simp only: d e list.map) simp
qed

text \<open>C4 as stated fails: for 23 available products the command sends one message, with
  the entries A to J and the notice, not three.\<close>

theorem status_listing_of_23_is_one_message:
  "length (snd (check_status ''t1'' None bot23)) = 1 \<and>
   map (map_option (map field_name \<circ> embed_fields) \<circ> embed_of)
       (snd (check_status ''t1'' None bot23))
     = [Some [[Lit ''A''], [Lit ''B''], [Lit ''C''], [Lit ''D''], [Lit ''E''], [Lit ''F''],
              [Lit ''G''], [Lit ''H''], [Lit ''I''], [Lit ''J''],
              [Lit (emoji_warning @ '' More Products'')]]]"
proof -
  have ne: "last_stock_status bot23 \<noteq> []"
    by (simp add: bot23_def letters23_def)
  show ?thesis
    by (simp add: check_status_def ne group_bot23 filter_rejected_def truthy_filter_def
        status_embeds_def
        create_status_embed_def Let_def embed_message_def letters23_def letter_info_def
        status_field_def more_products_field_def)
qed

end
